theory Spec2Isabelle
  imports
    Complex_Main
    "HOL-Library.Char_ord"
    "HOL-Library.List_Lexorder"
    "HOL-Library.Multiset"
    "HOL-Library.Option_ord"
    "HOL-Library.Product_Lexorder"
begin

section \<open>Python exceptions\<close>

text \<open>
  The exceptions that occur in the modelled code. \<open>except Exception\<close> catches every
  class derived from \<open>Exception\<close> (also \<open>NameError\<close> and the repository's own
  \<open>MaxRetriesExceededException\<close>, and SQLAlchemy's \<open>IntegrityError\<close> for a violated
  table constraint), but not \<open>KeyboardInterrupt\<close> or \<open>SystemExit\<close>,
  which derive from \<open>BaseException\<close> only; \<open>NonException\<close> stands for those.
\<close>

datatype py_exception =
    NameError string
  | MaxRetriesExceededException string
  | IntegrityError string
  | OtherException string
  | NonException string


section \<open>The retry decorator (utils/spotify\_utils.py)\<close>

















section \<open>The tables (utils/db\_utils.py, \<open>create_tables\<close>)\<close>

text \<open>
  A table is the list of its rows; a nullable column is an \<open>option\<close>, \<open>None\<close> being SQL's
  NULL. Primary-key columns are not nullable. The \<open>Float\<close> columns (the audio features)
  are only ever copied by the modelled code, never computed with; they are reals here.
  A \<open>Date\<close> is year, month and day, ordered lexicographically. The identifiers are strings,
  ordered lexicographically by character code (PostgreSQL orders text by the collation of
  the database; this is the order of the collation \<open>C\<close>). An \<open>Integer\<close> column holds a
  32-bit value; the only arithmetic on one is on \<open>duration_ms\<close>, a track's length in
  milliseconds, where differences and remainders of lengths stay in range, so the integers
  are unbounded here.
\<close>

type_synonym date = "nat \<times> nat \<times> nat"

text \<open>Rows of \<open>tracks\<close>; \<open>tracks_consolidated_test\<close> has the same columns in the same order.\<close>

record track_row =
  spotify_track_uri :: "string option"
  spotify_track_id :: string
  spotify_artist_id :: "string option"
  spotify_album_id :: "string option"
  track_name :: "string option"
  all_artist_names :: "string option"
  duration_ms :: "int option"
  track_popularity :: "int option"
  acousticness :: "real option"
  danceability :: "real option"
  energy :: "real option"
  instrumentalness :: "real option"
  liveness :: "real option"
  loudness :: "real option"
  speechiness :: "real option"
  valence :: "real option"
  tempo :: "real option"
  key :: "int option"
  time_signature :: "int option"

record album_row =
  spotify_album_id :: string
  spotify_artist_id :: "string option"
  album_name :: "string option"
  artist_name :: "string option"
  all_artist_names :: "string option"
  album_type :: "string option"
  total_tracks :: "int option"
  label :: "string option"
  release_date :: "date option"
  release_date_precision :: "string option"

record artist_row =
  spotify_artist_id :: string
  artist_name :: "string option"
  artist_popularity :: "int option"
  followers :: "int option"
  main_genre :: "string option"
  genres :: "string option"

text \<open>Rows of \<open>track_artists\<close>; the primary key is the pair of track and artist id.\<close>

record track_artist_row =
  spotify_track_uri :: "string option"
  spotify_track_id :: string
  spotify_artist_id :: string

text \<open>
  Rows of \<open>track_mapping\<close>. \<open>old_track_uri\<close> is the primary key of the table; the row type
  also serves for the rows a \<open>SELECT\<close> computes before they are inserted, where the column can
  still be NULL, so it is an \<open>option\<close> and the insertion checks it.
\<close>

record track_mapping_row =
  old_track_uri :: "string option"
  new_track_uri :: "string option"

record music_listening_history_row =
  music_stream_id :: int
  spotify_artist_id :: "string option"
  spotify_album_id :: "string option"
  time_ended :: "int option"
  ms_played :: "int option"
  track_name :: "string option"
  artist_name :: "string option"
  album_name :: "string option"
  reason_started :: "string option"
  reason_ended :: "string option"
  shuffle :: "bool option"
  skipped :: "bool option"
  incognito :: "bool option"
  spotify_track_uri :: "string option"

text \<open>
  The database. The two raw SQL statements name their tables literally: they read \<open>tracks\<close>,
  \<open>albums\<close>, \<open>artists\<close>, \<open>track_artists\<close> and \<open>track_mapping\<close>, and write
  \<open>track_mapping_test\<close> and \<open>tracks_consolidated_test\<close>. The Python functions work on the
  table objects of the module, which are \<open>music_listening_history_test\<close>, \<open>tracks_test\<close> and
  \<open>artists_test\<close>. Each of these names is a table of its own here.
\<close>

record db =
  tracks :: "track_row list"
  albums :: "album_row list"
  artists :: "artist_row list"
  track_artists :: "track_artist_row list"
  track_mapping :: "track_mapping_row list"
  music_listening_history_test :: "music_listening_history_row list"
  tracks_test :: "track_row list"
  artists_test :: "artist_row list"
  track_mapping_test :: "track_mapping_row list"
  tracks_consolidated_test :: "track_row list"

section \<open>SQL building blocks\<close>

text \<open>
  A join or \<open>WHERE\<close> condition keeps a row when it evaluates to TRUE; a comparison with NULL
  is not TRUE. All conditions of the modelled statements are conjunctions of comparisons,
  so "is TRUE" is all that is needed of SQL's three-valued logic.
\<close>

definition sql_eq :: "'a option \<Rightarrow> 'a option \<Rightarrow> bool" where
  "sql_eq a b = (case a of None \<Rightarrow> False | Some x \<Rightarrow> (case b of None \<Rightarrow> False | Some y \<Rightarrow> x = y))"

definition coalesce :: "'a option \<Rightarrow> 'a option \<Rightarrow> 'a option" where
  "coalesce a b = (case a of None \<Rightarrow> b | Some x \<Rightarrow> Some x)"

text \<open>PostgreSQL's integer \<open>%\<close> truncates towards zero: the result has the sign of the dividend.\<close>

definition pg_mod :: "int \<Rightarrow> int \<Rightarrow> int" where
  "pg_mod a b = sgn a * (\<bar>a\<bar> mod \<bar>b\<bar>)"

text \<open>\<open>MIN\<close> ignores NULLs and is NULL when nothing is left.\<close>

definition sql_min :: "int option list \<Rightarrow> int option" where
  "sql_min vs = (case List.map_filter id vs of [] \<Rightarrow> None | x # xs \<Rightarrow> Some (fold min xs x))"

definition left_outer_join :: "('a \<Rightarrow> 'b \<Rightarrow> bool) \<Rightarrow> 'a list \<Rightarrow> 'b list \<Rightarrow> ('a \<times> 'b option) list" where
  "left_outer_join on xs ys =
     concat (map (\<lambda>x. if filter (on x) ys = [] then [(x, None)]
                        else map (\<lambda>y. (x, Some y)) (filter (on x) ys)) xs)"

text \<open>
  \<open>ROW_NUMBER() OVER (PARTITION BY \<dots> ORDER BY \<dots>)\<close>: the rows of each partition are sorted
  and numbered from 1. Rows with equal sort keys are numbered in an order the engine is free
  to choose; here it is the order of the input list (the sort is stable).
\<close>

definition row_number :: "('r \<Rightarrow> 'p) \<Rightarrow> ('r \<Rightarrow> 'k::linorder) \<Rightarrow> 'r list \<Rightarrow> (nat \<times> 'r) list" where
  "row_number partition_by order_by rows =
     concat (map (\<lambda>p. enumerate 1 (sort_key order_by (filter (\<lambda>r. partition_by r = p) rows)))
                 (remdups (map partition_by rows)))"

fun intercalate :: "'a list \<Rightarrow> 'a list list \<Rightarrow> 'a list" where
  "intercalate sep [] = []"
| "intercalate sep [x] = x"
| "intercalate sep (x # y # ys) = x @ sep @ intercalate sep (y # ys)"

text \<open>\<open>STRING_AGG\<close> skips NULLs and is NULL when nothing is left.\<close>

definition string_agg :: "string \<Rightarrow> string option list \<Rightarrow> string option" where
  "string_agg delimiter vs =
     (case List.map_filter id vs of [] \<Rightarrow> None | ns \<Rightarrow> Some (intercalate delimiter ns))"

section \<open>\<open>TRACK_MAPPING_QUERY\<close>\<close>

text \<open>The computed column \<open>duration_ms - duration_ms % 3000\<close>; arithmetic on NULL is NULL.\<close>

definition duration_bucket :: "int option \<Rightarrow> int option" where
  "duration_bucket d = (case d of None \<Rightarrow> None | Some ms \<Rightarrow> Some (ms - pg_mod ms 3000))"

text \<open>The condition of \<open>tracks t1 JOIN tracks t2\<close>.\<close>

definition t1_t2_on :: "track_row \<Rightarrow> track_row \<Rightarrow> bool" where
  "t1_t2_on t1 t2 =
     (sql_eq (track_row.track_name t1) (track_row.track_name t2)
      \<and> sql_eq (track_row.spotify_artist_id t1) (track_row.spotify_artist_id t2)
      \<and> (case duration_ms t1 of None \<Rightarrow> False
          | Some d1 \<Rightarrow> (case duration_ms t2 of None \<Rightarrow> False | Some d2 \<Rightarrow> \<bar>d1 - d2\<bar> \<le> 3000)))"

text \<open>
  A row of the subquery \<open>t\<close>: the columns of \<open>t1\<close> and the two computed ones. The
  \<open>GROUP BY\<close> lists the columns of \<open>t1\<close>, its primary key among them, so a group is one row
  of \<open>t1\<close> with all its join partners, and a row of \<open>tracks\<close> without a partner (one whose
  name, artist or duration is NULL, since every other row is its own partner) has no group.
\<close>

record t_row =
  t1_cols :: track_row
  min_duration_ms :: "int option"
  duration_ms_group :: "int option"

definition subquery_t :: "track_row list \<Rightarrow> t_row list" where
  "subquery_t ts =
     map (\<lambda>t1. \<lparr> t1_cols = t1,
                 min_duration_ms = sql_min (map duration_ms (filter (t1_t2_on t1) ts)),
                 duration_ms_group = duration_bucket (duration_ms t1) \<rparr>)
         (remdups (concat (map (\<lambda>t1. map (\<lambda>t2. t1) (filter (t1_t2_on t1) ts)) ts)))"

text \<open>\<open>t JOIN albums a ON t.spotify_album_id = a.spotify_album_id\<close>.\<close>

definition t_join_albums :: "db \<Rightarrow> (t_row \<times> album_row) list" where
  "t_join_albums d =
     concat (map (\<lambda>t. map (\<lambda>a. (t, a))
                    (filter (\<lambda>a. sql_eq (track_row.spotify_album_id (t1_cols t))
                                         (Some (album_row.spotify_album_id a))) (albums d)))
                 (subquery_t (tracks d)))"

definition album_type_rank :: "string option \<Rightarrow> nat" where
  "album_type_rank ty =
     (if sql_eq ty (Some ''album'') then 1
      else if sql_eq ty (Some ''single'') then 2
      else if sql_eq ty (Some ''compilation'') then 3
      else 4)"

text \<open>
  The \<open>ORDER BY\<close> list of the window as one key, compared lexicographically. PostgreSQL puts
  NULLs first under \<open>DESC\<close> and last under \<open>ASC\<close>: the popularity is negated under the
  \<open>option\<close> (\<open>None\<close> is least), the date is paired with a flag that is \<open>True\<close> for NULL.
\<close>

type_synonym order_key = "nat \<times> int option \<times> (bool \<times> date) \<times> string"

definition order_by :: "t_row \<times> album_row \<Rightarrow> order_key" where
  "order_by ta =
     (album_type_rank (album_type (snd ta)),
      map_option uminus (track_popularity (t1_cols (fst ta))),
      (case release_date (snd ta) of None \<Rightarrow> (True, (0, 0, 0)) | Some day \<Rightarrow> (False, day)),
      track_row.spotify_track_id (t1_cols (fst ta)))"

type_synonym partition_key = "string option \<times> string option \<times> int option"

definition partition_by :: "t_row \<times> album_row \<Rightarrow> partition_key" where
  "partition_by ta =
     (track_row.spotify_artist_id (t1_cols (fst ta)),
      track_row.track_name (t1_cols (fst ta)),
      duration_ms_group (fst ta))"

text \<open>A row of the subquery \<open>x\<close>: columns of \<open>t\<close> and the row number.\<close>

record x_row =
  t_cols :: t_row
  rnk :: nat

definition subquery_x :: "db \<Rightarrow> x_row list" where
  "subquery_x d =
     map (\<lambda>(n, ta). \<lparr> t_cols = fst ta, rnk = n \<rparr>)
         (row_number partition_by order_by (t_join_albums d))"

text \<open>The condition of \<open>x LEFT OUTER JOIN tracks y\<close>.\<close>

definition x_y_on :: "x_row \<Rightarrow> track_row \<Rightarrow> bool" where
  "x_y_on x y =
     (sql_eq (track_row.spotify_artist_id (t1_cols (t_cols x))) (track_row.spotify_artist_id y)
      \<and> sql_eq (track_row.track_name (t1_cols (t_cols x))) (track_row.track_name y)
      \<and> sql_eq (duration_ms_group (t_cols x)) (duration_bucket (duration_ms y)))"

text \<open>The \<open>SELECT\<close> of the statement: the outer join, \<open>WHERE RNK = 1\<close>, the two output columns.\<close>

definition track_mapping_select :: "db \<Rightarrow> track_mapping_row list" where
  "track_mapping_select d =
     map (\<lambda>(x, y). \<lparr> old_track_uri =
                        coalesce (case y of None \<Rightarrow> None | Some y' \<Rightarrow> track_row.spotify_track_uri y')
                                 (track_row.spotify_track_uri (t1_cols (t_cols x))),
                     new_track_uri = track_row.spotify_track_uri (t1_cols (t_cols x)) \<rparr>)
         (filter (\<lambda>(x, y). rnk x = 1) (left_outer_join x_y_on (subquery_x d) (tracks d)))"

text \<open>
  \<open>INSERT INTO track_mapping_test\<close>: the primary key \<open>old_track_uri\<close> must be present and
  unique in the table after the insertion, or the statement fails and changes nothing.
\<close>

definition insert_into_track_mapping_test :: "track_mapping_row list \<Rightarrow> db \<Rightarrow> py_exception + db" where
  "insert_into_track_mapping_test rows d =
     (if \<exists>r \<in> set rows. old_track_uri r = None
      then Inl (IntegrityError ''null value in column old_track_uri'')
      else if \<not> distinct (map old_track_uri (track_mapping_test d @ rows))
      then Inl (IntegrityError ''duplicate key value in track_mapping_test'')
      else Inr (d\<lparr> track_mapping_test := track_mapping_test d @ rows \<rparr>))"

definition truncate_track_mapping_test :: "db \<Rightarrow> db" where
  "truncate_track_mapping_test d = d\<lparr> track_mapping_test := [] \<rparr>"

definition TRACK_MAPPING_QUERY :: "db \<Rightarrow> py_exception + db" where
  "TRACK_MAPPING_QUERY d =
     (let d' = truncate_track_mapping_test d
      in insert_into_track_mapping_test (track_mapping_select d') d')"

section \<open>\<open>TRACKS_CONSOLIDATED_QUERY\<close>\<close>

text \<open>
  The joins of the subquery \<open>an\<close>:
  \<open>track_artists ta JOIN artists a ON \<dots> JOIN tracks t ON \<dots>\<close>.
\<close>

definition an_join :: "db \<Rightarrow> (track_artist_row \<times> artist_row \<times> track_row) list" where
  "an_join d =
     concat (map (\<lambda>ta.
       concat (map (\<lambda>a.
         map (\<lambda>t. (ta, a, t))
             (filter (\<lambda>t. track_artist_row.spotify_track_id ta = track_row.spotify_track_id t) (tracks d)))
         (filter (\<lambda>a. track_artist_row.spotify_artist_id ta = artist_row.spotify_artist_id a) (artists d))))
       (track_artists d))"

text \<open>\<open>CASE WHEN ta.spotify_artist_id = t.spotify_artist_id THEN 1 ELSE 2 END\<close>.\<close>

definition primary_first :: "track_artist_row \<times> artist_row \<times> track_row \<Rightarrow> nat" where
  "primary_first j =
     (case j of (ta, a, t) \<Rightarrow>
        if sql_eq (Some (track_artist_row.spotify_artist_id ta)) (track_row.spotify_artist_id t)
        then 1 else 2)"

text \<open>
  The rows of \<open>an\<close>, one for each \<open>ta.spotify_track_id\<close> of the join: the id and the
  aggregated names. The aggregate's \<open>ORDER BY\<close> leaves the order of rows with equal keys to
  the engine; here it is the order of the joined rows (the sort is stable).
\<close>

definition subquery_an :: "db \<Rightarrow> (string \<times> string option) list" where
  "subquery_an d =
     map (\<lambda>i. (i, string_agg '', ''
                     (map (\<lambda>j. artist_row.artist_name (fst (snd j)))
                          (sort_key primary_first
                             (filter (\<lambda>j. track_artist_row.spotify_track_id (fst j) = i) (an_join d))))))
         (remdups (map (\<lambda>j. track_artist_row.spotify_track_id (fst j)) (an_join d)))"

text \<open>
  The \<open>SELECT DISTINCT\<close>: the columns of \<open>t\<close> in the order of the target table, with
  \<open>an.artist_names\<close> in the place of \<open>all_artist_names\<close>.
\<close>

definition tracks_consolidated_select :: "db \<Rightarrow> track_row list" where
  "tracks_consolidated_select d =
     remdups (concat (map (\<lambda>t.
       concat (map (\<lambda>tm.
         map (\<lambda>an. t\<lparr> track_row.all_artist_names := snd an \<rparr>)
             (filter (\<lambda>an. track_row.spotify_track_id t = fst an) (subquery_an d)))
         (filter (\<lambda>tm. sql_eq (track_row.spotify_track_uri t) (new_track_uri tm)) (track_mapping d))))
       (tracks d)))"

text \<open>\<open>INSERT INTO tracks_consolidated_test\<close>, whose primary key is \<open>spotify_track_id\<close>.\<close>

definition insert_into_tracks_consolidated_test :: "track_row list \<Rightarrow> db \<Rightarrow> py_exception + db" where
  "insert_into_tracks_consolidated_test rows d =
     (if \<not> distinct (map track_row.spotify_track_id (tracks_consolidated_test d @ rows))
      then Inl (IntegrityError ''duplicate key value in tracks_consolidated_test'')
      else Inr (d\<lparr> tracks_consolidated_test := tracks_consolidated_test d @ rows \<rparr>))"

definition truncate_tracks_consolidated_test :: "db \<Rightarrow> db" where
  "truncate_tracks_consolidated_test d = d\<lparr> tracks_consolidated_test := [] \<rparr>"

definition TRACKS_CONSOLIDATED_QUERY :: "db \<Rightarrow> py_exception + db" where
  "TRACKS_CONSOLIDATED_QUERY d =
     (let d' = truncate_tracks_consolidated_test d
      in insert_into_tracks_consolidated_test (tracks_consolidated_select d') d')"

section \<open>The connection: statements and commits\<close>

text \<open>
  A connection works on its own view of the database: \<open>conn.execute\<close> changes \<open>working\<close>,
  \<open>conn.commit()\<close> makes the view durable and visible (\<open>committed\<close>), and leaving the
  \<open>with db.connect()\<close> block closes the connection, which discards what was not committed.
  \<open>commits\<close> counts the calls of \<open>conn.commit()\<close>.
\<close>

record conn =
  committed :: db
  working :: db
  commits :: nat

definition execute :: "(db \<Rightarrow> db) \<Rightarrow> conn \<Rightarrow> conn" where
  "execute stmt c = c\<lparr> working := stmt (working c) \<rparr>"


definition commit :: "conn \<Rightarrow> conn" where
  "commit c = c\<lparr> committed := working c, commits := commits c + 1 \<rparr>"


section \<open>\<open>update_music_listening_history\<close>\<close>



section \<open>\<open>process_duplicate_artists\<close>\<close>

text \<open>
  \<open>SELECT artist_name FROM artists_test GROUP BY artist_name HAVING count(*) > 1\<close>
  (\<open>GROUP BY\<close> puts the NULL names into one group).
\<close>

definition dupe_query :: "artist_row list \<Rightarrow> string option list" where
  "dupe_query rows =
     filter (\<lambda>n. length (filter (\<lambda>a. artist_row.artist_name a = n) rows) > 1)
            (remdups (map artist_row.artist_name rows))"

text \<open>
  The names a Python function can read are its own local names (its parameters and every
  name it assigns anywhere in its body) and the names of the module; a name that is neither
  (nor a builtin) raises \<open>NameError\<close>. These are the names of \<open>process_duplicate_artists\<close> and
  of the module db\_utils, from the source.
\<close>

definition process_duplicate_artists_locals :: "string list" where
  "process_duplicate_artists_locals =
     [''conn'', ''music_listening_history_table'', ''artists_table'', ''logger'',
      ''dupe_query'', ''dupe_result'', ''duplicate_artist_names'', ''query'', ''result'',
      ''dupe_artist_df'', ''artist_counts'', ''new_artist_names'', ''index'', ''row'',
      ''artist_name'', ''new_artist_name'', ''spotify_artist_id'', ''mlh_dupe_artist_stmt'',
      ''artists_dupe_artist_stmt'']"

definition db_utils_globals :: "string list" where
  "db_utils_globals =
     [''logging'', ''os'', ''load_dotenv'', ''create_engine'', ''MetaData'', ''Table'', ''Column'',
      ''Integer'', ''BigInteger'', ''String'', ''Text'', ''DateTime'', ''Boolean'', ''Date'', ''Float'',
      ''PrimaryKeyConstraint'', ''select'', ''insert'', ''update'', ''and_'', ''or_'', ''inspect'',
      ''func'', ''Inspector'', ''psycopg'', ''configparser'', ''time'', ''datetime'', ''pd'',
      ''get_db_connection'', ''initialize_db'', ''create_tables'', ''table_db'', ''table_metadata'',
      ''table_names'', ''tables'', ''music_listening_history_table'', ''tracks_table'',
      ''track_artists_table'', ''artists_table'', ''artist_genre_table'', ''albums_table'',
      ''track_mapping_table'', ''tracks_consolidated_table'', ''load_data_to_db'',
      ''check_new_tracks_and_artists'', ''insert_track_artist'', ''insert_new_track'',
      ''insert_album'', ''insert_artist'', ''update_audio_features'',
      ''update_music_listening_history'', ''process_duplicate_artists'',
      ''fetch_table_to_dataframe'', ''get_artists_and_albums_for_img'',
      ''TRACK_MAPPING_QUERY'', ''TRACKS_CONSOLIDATED_QUERY'']"

definition load_name :: "string list \<Rightarrow> string \<Rightarrow> py_exception + unit" where
  "load_name scope n = (if n \<in> set scope then Inr () else Inl (NameError n))"

text \<open>An f-string evaluates its fields from left to right; the first failure is raised.\<close>

fun load_names :: "string list \<Rightarrow> string list \<Rightarrow> py_exception + unit" where
  "load_names scope [] = Inr ()"
| "load_names scope (n # ns) =
     (case load_name scope n of Inl e \<Rightarrow> Inl e | Inr _ \<Rightarrow> load_names scope ns)"

text \<open>
  The second query: name, id and followers of the artists whose name is \<open>IN\<close> the list of
  duplicate names (a NULL name is in no list), as the rows of the data frame.
\<close>

definition dupe_artist_rows :: "string option list \<Rightarrow> artist_row list \<Rightarrow> (string \<times> string \<times> int option) list" where
  "dupe_artist_rows duplicate_artist_names rows =
     concat (map (\<lambda>a. case artist_row.artist_name a of
                         None \<Rightarrow> []
                       | Some n \<Rightarrow> if Some n \<in> set duplicate_artist_names
                                   then [(n, artist_row.spotify_artist_id a, followers a)] else [])
                 rows)"

text \<open>
  \<open>sort_values(by='followers', ascending=False)\<close>: most followers first, missing values
  last. pandas does not fix the order of rows with equal followers; here they keep the
  order they had.
\<close>

definition sort_values_followers_desc ::
  "(string \<times> string \<times> int option) list \<Rightarrow> (string \<times> string \<times> int option) list" where
  "sort_values_followers_desc df =
     sort_key (\<lambda>(n, i, f). case f of None \<Rightarrow> (True, 0) | Some v \<Rightarrow> (False, - v)) df"

text \<open>Python's \<open>str\<close> of a natural number, for the f-string of the new name.\<close>

definition digit_char :: "nat \<Rightarrow> char" where
  "digit_char n = char_of (of_char CHR ''0'' + n)"

function str_nat :: "nat \<Rightarrow> string" where
  "str_nat n = (if n < 10 then [digit_char n] else str_nat (n div 10) @ [digit_char (n mod 10)])"
  by pat_completeness auto
termination
  by (relation "measure id") auto

text \<open>
  The first loop over the data frame: \<open>artist_counts\<close> is the dictionary, the result the
  list \<open>new_artist_names\<close>.
\<close>

fun new_artist_names :: "(string \<rightharpoonup> nat) \<Rightarrow> string list \<Rightarrow> string list" where
  "new_artist_names artist_counts [] = []"
| "new_artist_names artist_counts (name # rest) =
     (case artist_counts name of
        Some k \<Rightarrow> (name @ '' ('' @ str_nat (k + 1) @ '')'')
                  # new_artist_names (artist_counts(name \<mapsto> k + 1)) rest
      | None \<Rightarrow> name # new_artist_names (artist_counts(name \<mapsto> 1)) rest)"

definition mlh_dupe_artist_stmt :: "string \<Rightarrow> string \<Rightarrow> db \<Rightarrow> db" where
  "mlh_dupe_artist_stmt new_name artist_id d =
     d\<lparr> music_listening_history_test :=
          map (\<lambda>h. if sql_eq (music_listening_history_row.spotify_artist_id h) (Some artist_id)
                    then h\<lparr> music_listening_history_row.artist_name := Some new_name \<rparr> else h)
              (music_listening_history_test d) \<rparr>"

definition artists_dupe_artist_stmt :: "string \<Rightarrow> string \<Rightarrow> db \<Rightarrow> db" where
  "artists_dupe_artist_stmt new_name artist_id d =
     d\<lparr> artists_test :=
          map (\<lambda>a. if artist_row.spotify_artist_id a = artist_id
                    then a\<lparr> artist_row.artist_name := Some new_name \<rparr> else a)
              (artists_test d) \<rparr>"

text \<open>
  The second loop: for every row of the data frame the two \<open>UPDATE\<close>s, then
  \<open>conn.commit()\<close>, which stands inside the loop body. A row is the new name and the id.
\<close>

fun update_loop :: "(string \<times> string) list \<Rightarrow> conn \<Rightarrow> conn" where
  "update_loop [] c = c"
| "update_loop ((new_name, artist_id) # rest) c =
     update_loop rest
       (commit (execute (artists_dupe_artist_stmt new_name artist_id)
                  (execute (mlh_dupe_artist_stmt new_name artist_id) c)))"

text \<open>The function from the statement after the logging call to its end.\<close>

definition rename_duplicates :: "string option list \<Rightarrow> conn \<Rightarrow> conn" where
  "rename_duplicates duplicate_artist_names c =
     (let dupe_artist_df =
            sort_values_followers_desc
              (dupe_artist_rows duplicate_artist_names (artists_test (working c)));
          names = new_artist_names Map.empty (map fst dupe_artist_df)
      in update_loop (zip names (map (\<lambda>(n, i, f). i) dupe_artist_df)) c)"

text \<open>
  The function. After the list of duplicate names it evaluates
  \<open>logger.error(f"Failed to process album {album_name}: {e}")\<close>, whose f-string reads the
  names \<open>album_name\<close> and \<open>e\<close>.
\<close>

definition process_duplicate_artists :: "conn \<Rightarrow> (py_exception + unit) \<times> conn" where
  "process_duplicate_artists c =
     (let duplicate_artist_names = dupe_query (artists_test (working c))
      in case load_names (process_duplicate_artists_locals @ db_utils_globals)
                [''album_name'', ''e''] of
           Inl ex \<Rightarrow> (Inl ex, c)
         | Inr _ \<Rightarrow> (Inr (), rename_duplicates duplicate_artist_names c))"

section \<open>\<open>main\<close> of db\_updates.py\<close>



text \<open>The two rebuild statements one after the other, as \<open>main\<close> runs them.\<close>

definition rebuild :: "db \<Rightarrow> py_exception + db" where
  "rebuild d =
     (case TRACK_MAPPING_QUERY d of
        Inl e \<Rightarrow> Inl e
      | Inr d1 \<Rightarrow> TRACKS_CONSOLIDATED_QUERY d1)"

section \<open>Notions used in the statements\<close>

text \<open>
  What the tables are taken to satisfy when the rebuild runs. The track id is the primary
  key. A track is inserted only when no row has its URI (\<open>handle_new_tracks\<close>), so the URIs
  are distinct, and \<open>insert_new_track\<close> fills URI, name, artist and duration from the
  catalog's answer, so they are not NULL.
\<close>

definition wf_tracks :: "track_row list \<Rightarrow> bool" where
  "wf_tracks ts \<longleftrightarrow>
     distinct (map track_row.spotify_track_id ts)
     \<and> distinct (map track_row.spotify_track_uri ts)
     \<and> (\<forall>t \<in> set ts. track_row.spotify_track_uri t \<noteq> None
                     \<and> track_row.spotify_artist_id t \<noteq> None
                     \<and> track_row.track_name t \<noteq> None
                     \<and> duration_ms t \<noteq> None)"

text \<open>A track has a resolvable album when some row of \<open>albums\<close> has its album id.\<close>

definition resolvable_album :: "db \<Rightarrow> track_row \<Rightarrow> bool" where
  "resolvable_album d t \<longleftrightarrow>
     (\<exists>a \<in> set (albums d).
        sql_eq (track_row.spotify_album_id t) (Some (album_row.spotify_album_id a)))"

text \<open>The key of a track's candidate group: primary artist, name, duration bucket.\<close>

definition candidate_group :: "track_row \<Rightarrow> partition_key" where
  "candidate_group t =
     (track_row.spotify_artist_id t, track_row.track_name t, duration_bucket (duration_ms t))"

text \<open>The same key, read off a row of the subquery \<open>x\<close>.\<close>

definition x_group :: "x_row \<Rightarrow> partition_key" where
  "x_group x =
     (track_row.spotify_artist_id (t1_cols (t_cols x)),
      track_row.track_name (t1_cols (t_cols x)),
      duration_ms_group (t_cols x))"


text \<open>
  The first row of every partition under a sort key: the rows that \<open>row_number\<close> numbers 1.
\<close>

definition first_rows :: "('r \<Rightarrow> 'p) \<Rightarrow> ('r \<Rightarrow> 'k::linorder) \<Rightarrow> 'r list \<Rightarrow> 'r list" where
  "first_rows part sort_by rows =
     concat (map (\<lambda>p. take 1 (sort_key sort_by (filter (\<lambda>r. part r = p) rows)))
                 (remdups (map part rows)))"

text \<open>The canonical rows: the first row of every partition of the joined rows.\<close>

definition canonical_rows :: "db \<Rightarrow> (t_row \<times> album_row) list" where
  "canonical_rows d = first_rows partition_by order_by (t_join_albums d)"

text \<open>The aggregated names of the rows of \<open>an\<close> for one track id.\<close>

definition an_names :: "db \<Rightarrow> string \<Rightarrow> string option" where
  "an_names d i =
     string_agg '', ''
       (map (\<lambda>j. artist_row.artist_name (fst (snd j)))
            (sort_key primary_first
               (filter (\<lambda>j. track_artist_row.spotify_track_id (fst j) = i) (an_join d))))"

text \<open>The rows of the \<open>SELECT DISTINCT\<close> before the duplicates are removed.\<close>

definition consolidated_joined :: "db \<Rightarrow> track_row list" where
  "consolidated_joined d =
     concat (map (\<lambda>t.
       concat (map (\<lambda>tm.
         map (\<lambda>an. t\<lparr> track_row.all_artist_names := snd an \<rparr>)
             (filter (\<lambda>an. track_row.spotify_track_id t = fst an) (subquery_an d)))
         (filter (\<lambda>tm. sql_eq (track_row.spotify_track_uri t) (new_track_uri tm)) (track_mapping d))))
       (tracks d))"

text \<open>
  A track has a consolidated row when it is the target of a mapping entry and its id
  occurs among the joined rows of \<open>an\<close>.
\<close>

definition has_consolidated_row :: "db \<Rightarrow> track_row \<Rightarrow> bool" where
  "has_consolidated_row d t \<longleftrightarrow>
     (\<exists>tm \<in> set (track_mapping d). sql_eq (track_row.spotify_track_uri t) (new_track_uri tm))
     \<and> track_row.spotify_track_id t
         \<in> (\<lambda>j. track_artist_row.spotify_track_id (fst j)) ` set (an_join d)"

section \<open>Example data\<close>

text \<open>Rows with the columns that matter filled in, for the concrete instances below.\<close>

definition example_track ::
  "string \<Rightarrow> string \<Rightarrow> string \<Rightarrow> string \<Rightarrow> string \<Rightarrow> int \<Rightarrow> int \<Rightarrow> track_row" where
  "example_track uri i artist album name ms pop =
     \<lparr> track_row.spotify_track_uri = Some uri, spotify_track_id = i,
       spotify_artist_id = Some artist, spotify_album_id = Some album,
       track_name = Some name, all_artist_names = None, duration_ms = Some ms,
       track_popularity = Some pop, acousticness = None, danceability = None, energy = None,
       instrumentalness = None, liveness = None, loudness = None, speechiness = None,
       valence = None, tempo = None, key = None, time_signature = None \<rparr>"

definition example_album :: "string \<Rightarrow> string \<Rightarrow> date \<Rightarrow> album_row" where
  "example_album i ty day =
     \<lparr> album_row.spotify_album_id = i, spotify_artist_id = None, album_name = None,
       artist_name = None, all_artist_names = None, album_type = Some ty, total_tracks = None,
       label = None, release_date = Some day, release_date_precision = Some ''day'' \<rparr>"

definition example_artist :: "string \<Rightarrow> string \<Rightarrow> int \<Rightarrow> artist_row" where
  "example_artist i name n =
     \<lparr> artist_row.spotify_artist_id = i, artist_name = Some name, artist_popularity = None,
       followers = Some n, main_genre = None, genres = None \<rparr>"

definition example_play :: "int \<Rightarrow> string \<Rightarrow> string \<Rightarrow> string \<Rightarrow> music_listening_history_row" where
  "example_play n uri artist name =
     \<lparr> music_stream_id = n, spotify_artist_id = Some artist, spotify_album_id = None,
       time_ended = None, ms_played = None, track_name = None, artist_name = Some name,
       album_name = None, reason_started = None, reason_ended = None, shuffle = None,
       skipped = None, incognito = None, spotify_track_uri = Some uri \<rparr>"

definition empty_db :: db where
  "empty_db =
     \<lparr> tracks = [], albums = [], artists = [], track_artists = [], track_mapping = [],
       music_listening_history_test = [], tracks_test = [], artists_test = [],
       track_mapping_test = [], tracks_consolidated_test = [] \<rparr>"

text \<open>Two artists called Bob, and one play of the one with fewer followers.\<close>

definition bob_db :: db where
  "bob_db =
     empty_db\<lparr> artists_test := [example_artist ''1'' ''Bob'' 1000, example_artist ''2'' ''Bob'' 50],
               music_listening_history_test := [example_play 1 ''u'' ''2'' ''Bob''] \<rparr>"

definition bob_conn :: conn where
  "bob_conn = \<lparr> committed = bob_db, working = bob_db, commits = 0 \<rparr>"

text \<open>
  A small catalog. Tracks A, B and C share name, artist and bucket (180000); C's album
  is missing. D is 1 ms shorter than A and falls into the bucket below (177000). E stands
  alone in its bucket and its album is missing. F stands alone in its bucket, with an album.
  A is associated with both artists, D only with the second (not its primary artist), F with
  none. \<open>track_mapping\<close>, which the consolidation reads, holds the expected mapping.
\<close>

definition track_A :: track_row where
  "track_A = example_track ''uA'' ''A'' ''1'' ''alA'' ''X'' 180000 10"

definition track_B :: track_row where
  "track_B = example_track ''uB'' ''B'' ''1'' ''alB'' ''X'' 181500 50"

definition track_C :: track_row where
  "track_C = example_track ''uC'' ''C'' ''1'' ''gone'' ''X'' 180001 10"

definition track_D :: track_row where
  "track_D = example_track ''uD'' ''D'' ''1'' ''alD'' ''X'' 179999 10"

definition track_E :: track_row where
  "track_E = example_track ''uE'' ''E'' ''1'' ''gone'' ''X'' 500000 10"

definition track_F :: track_row where
  "track_F = example_track ''uF'' ''F'' ''1'' ''alA'' ''X'' 300000 10"

definition album_A :: album_row where
  "album_A = example_album ''alA'' ''album'' (2001, 1, 1)"

definition album_B :: album_row where
  "album_B = example_album ''alB'' ''single'' (2000, 1, 1)"

definition album_D :: album_row where
  "album_D = example_album ''alD'' ''album'' (2002, 1, 1)"

definition catalog_mapping :: "track_mapping_row list" where
  "catalog_mapping =
     [\<lparr> old_track_uri = Some ''uB'', new_track_uri = Some ''uA'' \<rparr>,
      \<lparr> old_track_uri = Some ''uA'', new_track_uri = Some ''uA'' \<rparr>,
      \<lparr> old_track_uri = Some ''uC'', new_track_uri = Some ''uA'' \<rparr>,
      \<lparr> old_track_uri = Some ''uD'', new_track_uri = Some ''uD'' \<rparr>,
      \<lparr> old_track_uri = Some ''uF'', new_track_uri = Some ''uF'' \<rparr>]"

definition catalog_db :: db where
  "catalog_db =
     empty_db\<lparr> tracks := [track_B, track_A, track_C, track_D, track_E, track_F],
               albums := [album_A, album_B, album_D],
               artists := [example_artist ''1'' ''Bob'' 1000, example_artist ''2'' ''Al'' 50],
               track_artists :=
                 [\<lparr> track_artist_row.spotify_track_uri = Some ''uA'', spotify_track_id = ''A'',
                    spotify_artist_id = ''2'' \<rparr>,
                  \<lparr> track_artist_row.spotify_track_uri = Some ''uA'', spotify_track_id = ''A'',
                    spotify_artist_id = ''1'' \<rparr>,
                  \<lparr> track_artist_row.spotify_track_uri = Some ''uD'', spotify_track_id = ''D'',
                    spotify_artist_id = ''2'' \<rparr>],
               track_mapping := catalog_mapping \<rparr>"

definition catalog_consolidated :: "track_row list" where
  "catalog_consolidated =
     [track_A\<lparr> track_row.all_artist_names := Some ''Bob, Al'' \<rparr>,
      track_D\<lparr> track_row.all_artist_names := Some ''Al'' \<rparr>]"

text \<open>The catalog with stale rows in the two output tables, and the catalog rebuilt.\<close>

definition stale_db :: db where
  "stale_db =
     catalog_db\<lparr> track_mapping_test := [\<lparr> old_track_uri = Some ''uZ'', new_track_uri = Some ''uZ'' \<rparr>],
                 tracks_consolidated_test := [track_E] \<rparr>"

definition rebuilt_db :: db where
  "rebuilt_db =
     catalog_db\<lparr> track_mapping_test := catalog_mapping,
                 tracks_consolidated_test := catalog_consolidated \<rparr>"

text \<open>The two tracks of the specification's scenario, alone.\<close>

definition scenario_db :: db where
  "scenario_db = empty_db\<lparr> tracks := [track_B, track_A], albums := [album_A, album_B] \<rparr>"

section \<open>The retry decorator: properties\<close>






section \<open>\<open>process_duplicate_artists\<close>: the logging statement\<close>

lemma load_names_album_name:
  "load_names (process_duplicate_artists_locals @ db_utils_globals) [''album_name'', ''e''] =
     Inl (NameError ''album_name'')"
  by (simp add: load_name_def process_duplicate_artists_locals_def db_utils_globals_def)

lemma process_duplicate_artists_NameError:
  "process_duplicate_artists c = (Inl (NameError ''album_name''), c)"
  by (simp only: process_duplicate_artists_def load_names_album_name Let_def sum.case)


lemma bob_dupe_query: "dupe_query (artists_test (working bob_conn)) = [Some ''Bob'']"
  by (simp add: dupe_query_def bob_conn_def bob_db_def empty_db_def example_artist_def)

lemma digit_char_2: "digit_char (Suc (Suc 0)) = CHR ''2''"
  by code_simp

lemma bob_rename_duplicates:
  "rename_duplicates [Some ''Bob''] bob_conn = 
    \<lparr> committed = bob_db\<lparr> artists_test := [example_artist ''1'' ''Bob'' 1000, example_artist ''2'' ''Bob (2)'' 50],
               music_listening_history_test := [example_play 1 ''u'' ''2'' ''Bob (2)''] \<rparr>,
       working = bob_db\<lparr> artists_test := [example_artist ''1'' ''Bob'' 1000, example_artist ''2'' ''Bob (2)'' 50],
               music_listening_history_test := [example_play 1 ''u'' ''2'' ''Bob (2)''] \<rparr>,
       commits = 2 \<rparr>"
  by (simp add: rename_duplicates_def dupe_artist_rows_def sort_values_followers_desc_def
      bob_conn_def bob_db_def empty_db_def example_artist_def example_play_def digit_char_2
      commit_def execute_def mlh_dupe_artist_stmt_def artists_dupe_artist_stmt_def sql_eq_def)

section \<open>Lists\<close>

lemma filter_concat_map:
  "filter P (concat (map f xs)) = concat (map (\<lambda>x. filter P (f x)) xs)"
  by (induction xs) simp_all

lemma distinct_concat_map_groups:
  assumes "distinct ps" and "distinct (map f ys)"
  shows "distinct (concat (map (\<lambda>p. map f (filter (\<lambda>y. g y = p) ys)) ps))"
  using assms(1)
proof (induction ps)
  case Nil
  then show ?case by simp
next
  case (Cons p ps)
  have inj: "inj_on f (set ys)" using assms(2) by (simp add: distinct_map)
  have d1: "distinct (map f (filter (\<lambda>y. g y = p) ys))"
    using assms(2) by (simp add: distinct_map_filter)
  have disj: "set (map f (filter (\<lambda>y. g y = p) ys))
                \<inter> set (concat (map (\<lambda>p. map f (filter (\<lambda>y. g y = p) ys)) ps)) = {}"
  proof (rule ccontr)
    assume "\<not> ?thesis"
    then obtain v where v1: "v \<in> set (map f (filter (\<lambda>y. g y = p) ys))"
      and v2: "v \<in> set (concat (map (\<lambda>p. map f (filter (\<lambda>y. g y = p) ys)) ps))" by blast
    from v1 obtain y where y: "y \<in> set ys" "g y = p" "v = f y" by auto
    from v2 obtain q y' where y': "q \<in> set ps" "y' \<in> set ys" "g y' = q" "v = f y'" by auto
    from y y' inj have "y = y'" by (auto dest: inj_onD)
    with y y' Cons.prems show False by auto
  qed
  from Cons d1 disj show ?case by simp
qed


lemma filter_distinct_map_singleton:
  assumes "distinct (map f xs)" and "x \<in> set xs"
  shows "filter (\<lambda>r. f r = f x) xs = [x]"
  using assms
proof (induction xs)
  case Nil
  then show ?case by simp
next
  case (Cons a xs)
  show ?case
  proof (cases "a = x")
    case True
    then have "f x \<notin> f ` set xs" using Cons.prems(1) by auto
    then have "\<forall>r \<in> set xs. f r \<noteq> f x" by (metis imageI)
    then have "filter (\<lambda>r. f r = f x) xs = []" by (simp add: filter_empty_conv)
    with True show ?thesis by simp
  next
    case False
    then have x: "x \<in> set xs" using Cons.prems(2) by auto
    then have "f a \<noteq> f x" using Cons.prems(1) by (metis distinct.simps(2) imageI list.simps(9) set_map)
    with Cons x show ?thesis by simp
  qed
qed



lemma filter_eq_distinct:
  "distinct ks \<Longrightarrow> filter (\<lambda>k. i = k) ks = (if i \<in> set ks then [i] else [])"
  by (induction ks) auto




section \<open>Sorting and row numbers\<close>

lemma take_1_sort_key:
  assumes "xs \<noteq> []"
  obtains c where "take 1 (sort_key k xs) = [c]" and "c \<in> set xs"
    and "\<And>x. x \<in> set xs \<Longrightarrow> k c \<le> k x"
proof -
  have "sort_key k xs \<noteq> []" using assms by (metis length_sort length_0_conv)
  then obtain c rest where s: "sort_key k xs = c # rest" by (cases "sort_key k xs") auto
  have "sorted (map k (c # rest))" using sorted_sort_key [of k xs] s by simp
  then have le: "\<forall>x \<in> set rest. k c \<le> k x" by simp
  have mem: "set (c # rest) = set xs" using set_sort [of k xs] s by simp
  show thesis
  proof (rule that [of c])
    show "take 1 (sort_key k xs) = [c]" using s by simp
    show "c \<in> set xs" using mem by auto
    show "k c \<le> k x" if "x \<in> set xs" for x using that mem le by auto
  qed
qed


lemma filter_enumerate_first:
  "filter (\<lambda>nr. fst nr = n) (enumerate n xs) = map (\<lambda>x. (n, x)) (take 1 xs)"
proof (cases xs)
  case Nil
  then show ?thesis by simp
next
  case (Cons x rest)
  have "filter (\<lambda>nr. fst nr = n) (enumerate (Suc n) rest) = []"
    by (auto simp: filter_empty_conv in_set_enumerate_eq)
  with Cons show ?thesis by simp
qed

lemma row_number_first:
  "filter (\<lambda>nr. fst nr = 1) (row_number part k rows) = map (\<lambda>r. (1, r)) (first_rows part k rows)"
  by (simp add: row_number_def first_rows_def filter_concat_map filter_enumerate_first
      map_concat comp_def)

lemma first_rows_singleton:
  assumes "p \<in> set (map part rows)"
  obtains c where "take 1 (sort_key k (filter (\<lambda>r. part r = p) rows)) = [c]"
    and "c \<in> set rows" and "part c = p"
    and "\<And>r. r \<in> set rows \<Longrightarrow> part r = p \<Longrightarrow> k c \<le> k r"
proof -
  have ne: "filter (\<lambda>r. part r = p) rows \<noteq> []" using assms by (auto simp: filter_empty_conv)
  from take_1_sort_key [OF ne, of k] obtain c where
    c: "take 1 (sort_key k (filter (\<lambda>r. part r = p) rows)) = [c]"
       "c \<in> set (filter (\<lambda>r. part r = p) rows)"
       "\<And>x. x \<in> set (filter (\<lambda>r. part r = p) rows) \<Longrightarrow> k c \<le> k x" by blast
  show thesis
    by (rule that [of c]) (use c in auto)
qed

lemma first_rows_mem:
  assumes "c \<in> set (first_rows part k rows)"
  shows "c \<in> set rows"
    and "\<And>r. r \<in> set rows \<Longrightarrow> part r = part c \<Longrightarrow> k c \<le> k r"
proof -
  from assms obtain p where p: "p \<in> set (map part rows)"
    and c: "c \<in> set (take 1 (sort_key k (filter (\<lambda>r. part r = p) rows)))"
    by (auto simp: first_rows_def)
  from first_rows_singleton [OF p, of k] obtain c' where
    c': "take 1 (sort_key k (filter (\<lambda>r. part r = p) rows)) = [c']"
       "c' \<in> set rows" "part c' = p"
       "\<And>r. r \<in> set rows \<Longrightarrow> part r = p \<Longrightarrow> k c' \<le> k r" by blast
  from c c'(1) have eq: "c = c'" by simp
  show "c \<in> set rows" using eq c'(2) by simp
  show "k c \<le> k r" if "r \<in> set rows" "part r = part c" for r
    using that eq c'(3,4) by simp
qed

lemma map_part_first_rows:
  "map part (first_rows part k rows) = remdups (map part rows)"
proof -
  have "map part (concat (map (\<lambda>p. take 1 (sort_key k (filter (\<lambda>r. part r = p) rows))) ps)) = ps"
    if "set ps \<subseteq> set (map part rows)" for ps
    using that
  proof (induction ps)
    case Nil
    then show ?case by simp
  next
    case (Cons p ps)
    then have p: "p \<in> set (map part rows)" by simp
    from first_rows_singleton [OF p, of k] obtain c where
      "take 1 (sort_key k (filter (\<lambda>r. part r = p) rows)) = [c]" "part c = p" by blast
    with Cons show ?case by simp
  qed
  from this [of "remdups (map part rows)"] show ?thesis by (simp add: first_rows_def)
qed

lemma first_rows_distinct_part: "distinct (map part (first_rows part k rows))"
  by (simp add: map_part_first_rows)

lemma first_rows_cover:
  assumes "r \<in> set rows"
  shows "\<exists>c \<in> set (first_rows part k rows). part c = part r"
proof -
  have "part r \<in> set (map part (first_rows part k rows))"
    using assms by (simp add: map_part_first_rows)
  then show ?thesis by auto
qed


lemma lex_le: "(a, b) \<le> (a', b') \<longleftrightarrow> a < a' \<or> (a = a' \<and> b \<le> b')"
  for a a' :: "'a::linorder" and b b' :: "'b::linorder"
  by (auto simp: less_eq_prod_def)

lemma lex_less: "(a, b) < (a', b') \<longleftrightarrow> a < a' \<or> (a = a' \<and> b < b')"
  for a a' :: "'a::linorder" and b b' :: "'b::linorder"
  by (auto simp: less_prod_def)

section \<open>The subqueries of the track mapping\<close>

lemma sql_eq_Some_iff: "a \<noteq> None \<Longrightarrow> b \<noteq> None \<Longrightarrow> sql_eq a b \<longleftrightarrow> a = b"
  by (auto simp: sql_eq_def split: option.splits)

lemma duration_bucket_eq_None [simp]: "duration_bucket v = None \<longleftrightarrow> v = None"
  by (simp add: duration_bucket_def split: option.splits)

lemma t1_t2_on_refl:
  assumes "track_row.track_name t \<noteq> None" and "track_row.spotify_artist_id t \<noteq> None"
    and "duration_ms t \<noteq> None"
  shows "t1_t2_on t t"
  using assms by (auto simp: t1_t2_on_def sql_eq_def split: option.splits)

lemma subquery_t_mem:
  assumes "t \<in> set (subquery_t ts)"
  shows "t1_cols t \<in> set ts" and "duration_ms_group t = duration_bucket (duration_ms (t1_cols t))"
  using assms by (auto simp: subquery_t_def)

lemma subquery_t_intro:
  assumes "t1 \<in> set ts" and "t2 \<in> set ts" and "t1_t2_on t1 t2"
  shows "\<exists>t \<in> set (subquery_t ts). t1_cols t = t1"
proof -
  have "t1 \<in> set (concat (map (\<lambda>t1. map (\<lambda>t2. t1) (filter (t1_t2_on t1) ts)) ts))"
    using assms by auto
  then show ?thesis by (force simp: subquery_t_def)
qed

lemma t_join_albums_mem:
  assumes "j \<in> set (t_join_albums d)"
  shows "t1_cols (fst j) \<in> set (tracks d)"
    and "resolvable_album d (t1_cols (fst j))"
    and "partition_by j = candidate_group (t1_cols (fst j))"
    and "snd j \<in> set (albums d)"
    and "sql_eq (track_row.spotify_album_id (t1_cols (fst j))) (Some (album_row.spotify_album_id (snd j)))"
proof -
  from assms obtain t a where j: "j = (t, a)" and t: "t \<in> set (subquery_t (tracks d))"
    and a: "a \<in> set (albums d)"
    and m: "sql_eq (track_row.spotify_album_id (t1_cols t)) (Some (album_row.spotify_album_id a))"
    by (auto simp: t_join_albums_def)
  show "t1_cols (fst j) \<in> set (tracks d)" using j subquery_t_mem(1) [OF t] by simp
  show "resolvable_album d (t1_cols (fst j))" using j a m by (auto simp: resolvable_album_def)
  show "partition_by j = candidate_group (t1_cols (fst j))"
    using j subquery_t_mem(2) [OF t] by (simp add: partition_by_def candidate_group_def)
  show "snd j \<in> set (albums d)" using j a by simp
  show "sql_eq (track_row.spotify_album_id (t1_cols (fst j))) (Some (album_row.spotify_album_id (snd j)))"
    using j m by simp
qed

lemma t_join_albums_intro:
  assumes "wf_tracks (tracks d)" and "t1 \<in> set (tracks d)" and "resolvable_album d t1"
  shows "\<exists>j \<in> set (t_join_albums d). t1_cols (fst j) = t1"
proof -
  have "t1_t2_on t1 t1" using assms(1,2) by (intro t1_t2_on_refl) (auto simp: wf_tracks_def)
  from subquery_t_intro [OF assms(2) assms(2) this]
  obtain t where t: "t \<in> set (subquery_t (tracks d))" "t1_cols t = t1" by blast
  from assms(3) obtain a where a: "a \<in> set (albums d)"
    "sql_eq (track_row.spotify_album_id t1) (Some (album_row.spotify_album_id a))"
    by (auto simp: resolvable_album_def)
  have "(t, a) \<in> set (t_join_albums d)" using t a by (auto simp: t_join_albums_def)
  with t show ?thesis by force
qed

lemma canonical_rows_mem:
  assumes "c \<in> set (canonical_rows d)"
  shows "c \<in> set (t_join_albums d)"
    and "t1_cols (fst c) \<in> set (tracks d)"
    and "resolvable_album d (t1_cols (fst c))"
    and "partition_by c = candidate_group (t1_cols (fst c))"
proof -
  show c: "c \<in> set (t_join_albums d)"
    by (rule first_rows_mem(1) [OF assms [unfolded canonical_rows_def]])
  show "t1_cols (fst c) \<in> set (tracks d)" "resolvable_album d (t1_cols (fst c))"
    "partition_by c = candidate_group (t1_cols (fst c))"
    using t_join_albums_mem [OF c] by simp_all
qed

lemma canonical_rows_least:
  assumes "c \<in> set (canonical_rows d)" and "j \<in> set (t_join_albums d)"
    and "partition_by j = partition_by c"
  shows "order_by c \<le> order_by j"
  by (rule first_rows_mem(2) [OF assms(1) [unfolded canonical_rows_def] assms(2,3)])

lemma canonical_rows_cover:
  assumes "j \<in> set (t_join_albums d)"
  shows "\<exists>c \<in> set (canonical_rows d). partition_by c = partition_by j"
  unfolding canonical_rows_def by (rule first_rows_cover [OF assms])



lemma order_by_explicit:
  assumes "track_popularity (t1_cols (fst j)) = Some p"
    and "track_popularity (t1_cols (fst j')) = Some p'"
    and "release_date (snd j) = Some day" and "release_date (snd j') = Some day'"
  shows "order_by j \<le> order_by j' \<longleftrightarrow>
           album_type_rank (album_type (snd j)) < album_type_rank (album_type (snd j'))
           \<or> (album_type_rank (album_type (snd j)) = album_type_rank (album_type (snd j'))
               \<and> (p > p'
                   \<or> (p = p'
                       \<and> (day < day'
                           \<or> (day = day'
                               \<and> track_row.spotify_track_id (t1_cols (fst j))
                                   \<le> track_row.spotify_track_id (t1_cols (fst j')))))))"
  using assms by (auto simp: order_by_def lex_le lex_less)

lemma album_type_rank_values:
  "album_type_rank (Some ''album'') = 1"
  "album_type_rank (Some ''single'') = 2"
  "album_type_rank (Some ''compilation'') = 3"
  "ty \<notin> {Some ''album'', Some ''single'', Some ''compilation''} \<Longrightarrow> album_type_rank ty = 4"
  by (auto simp: album_type_rank_def sql_eq_def split: option.splits)

lemma album_type_rank_ge_1: "1 \<le> album_type_rank ty"
  by (simp add: album_type_rank_def)

lemma album_type_rank_1: "album_type_rank ty = 1 \<Longrightarrow> ty = Some ''album''"
  by (auto simp: album_type_rank_def sql_eq_def split: option.splits if_splits)

lemma albums_pk:
  assumes "distinct (map album_row.spotify_album_id (albums d))"
    and "a \<in> set (albums d)" and "a' \<in> set (albums d)"
    and "sql_eq k (Some (album_row.spotify_album_id a))"
    and "k = Some (album_row.spotify_album_id a')"
  shows "a = a'"
proof -
  have "album_row.spotify_album_id a = album_row.spotify_album_id a'"
    using assms(4,5) by (simp add: sql_eq_def)
  with assms(1-3) show ?thesis by (auto simp: distinct_map dest: inj_onD)
qed

section \<open>The rows of the track mapping\<close>

lemma filter_left_outer_join:
  "filter (\<lambda>xy. P (fst xy)) (left_outer_join on xs ys) = left_outer_join on (filter P xs) ys"
  by (induction xs) (auto simp: left_outer_join_def)

lemma filter_rnk_subquery_x:
  "filter (\<lambda>x. rnk x = 1) (subquery_x d) = map (\<lambda>c. \<lparr> t_cols = fst c, rnk = 1 \<rparr>) (canonical_rows d)"
proof -
  have "filter (\<lambda>x. rnk x = 1) (subquery_x d) =
        map (\<lambda>(n, ta). \<lparr> t_cols = fst ta, rnk = n \<rparr>)
          (filter (\<lambda>nr. fst nr = 1) (row_number partition_by order_by (t_join_albums d)))"
    by (simp add: subquery_x_def filter_map comp_def case_prod_beta)
  also have "\<dots> = map (\<lambda>(n, ta). \<lparr> t_cols = fst ta, rnk = n \<rparr>)
          (map (\<lambda>r. (1, r)) (first_rows partition_by order_by (t_join_albums d)))"
    by (simp only: row_number_first)
  also have "\<dots> = map (\<lambda>c. \<lparr> t_cols = fst c, rnk = 1 \<rparr>) (canonical_rows d)"
    by (simp add: canonical_rows_def comp_def)
  finally show ?thesis .
qed

lemma x_group_canonical: "x_group \<lparr> t_cols = fst c, rnk = n \<rparr> = partition_by c"
  by (simp add: x_group_def partition_by_def)

lemma canonical_row_of_group:
  assumes "j \<in> set (t_join_albums d)"
  obtains c where "c \<in> set (canonical_rows d)" and "partition_by c = partition_by j"
    and "filter (\<lambda>x. rnk x = 1 \<and> x_group x = partition_by j) (subquery_x d)
           = [\<lparr> t_cols = fst c, rnk = 1 \<rparr>]"
proof -
  from canonical_rows_cover [OF assms]
  obtain c where c: "c \<in> set (canonical_rows d)" "partition_by c = partition_by j" by blast
  have d: "distinct (map partition_by (canonical_rows d))"
    unfolding canonical_rows_def by (rule first_rows_distinct_part)
  have "filter (\<lambda>x. rnk x = 1 \<and> x_group x = partition_by j) (subquery_x d)
        = filter (\<lambda>x. x_group x = partition_by j) (filter (\<lambda>x. rnk x = 1) (subquery_x d))"
    by (simp add: conj_commute)
  also have "\<dots> = map (\<lambda>c. \<lparr> t_cols = fst c, rnk = 1 \<rparr>)
                     (filter (\<lambda>r. partition_by r = partition_by c) (canonical_rows d))"
    unfolding filter_rnk_subquery_x by (simp add: filter_map comp_def x_group_canonical c(2))
  also have "\<dots> = [\<lparr> t_cols = fst c, rnk = 1 \<rparr>]"
    unfolding filter_distinct_map_singleton [OF d c(1)] by simp
  finally show thesis by (rule that [OF c])
qed

lemma x_y_on_iff:
  assumes "wf_tracks (tracks d)" and "c \<in> set (canonical_rows d)" and "y \<in> set (tracks d)"
  shows "x_y_on \<lparr> t_cols = fst c, rnk = 1 \<rparr> y \<longleftrightarrow> candidate_group y = partition_by c"
proof -
  let ?t = "t1_cols (fst c)"
  have t: "?t \<in> set (tracks d)" and p: "partition_by c = candidate_group ?t"
    using canonical_rows_mem [OF assms(2)] by simp_all
  have g: "duration_ms_group (fst c) = duration_bucket (duration_ms ?t)"
    using p by (simp add: partition_by_def candidate_group_def)
  have nn: "track_row.spotify_artist_id ?t \<noteq> None" "track_row.track_name ?t \<noteq> None"
    "duration_ms ?t \<noteq> None" "track_row.spotify_artist_id y \<noteq> None"
    "track_row.track_name y \<noteq> None" "duration_ms y \<noteq> None"
    using assms(1,3) t by (auto simp: wf_tracks_def)
  show ?thesis
    unfolding x_y_on_def p candidate_group_def
    using nn by (auto simp: g sql_eq_Some_iff)
qed

lemma left_outer_join_canonical:
  assumes "wf_tracks (tracks d)"
  shows "left_outer_join x_y_on (map (\<lambda>c. \<lparr> t_cols = fst c, rnk = 1 \<rparr>) (canonical_rows d)) (tracks d) =
         concat (map (\<lambda>c. map (\<lambda>y. (\<lparr> t_cols = fst c, rnk = 1 \<rparr>, Some y))
                          (filter (\<lambda>y. candidate_group y = partition_by c) (tracks d)))
                     (canonical_rows d))"
proof -
  have "(if filter (x_y_on \<lparr> t_cols = fst c, rnk = 1 \<rparr>) (tracks d) = [] then [(\<lparr> t_cols = fst c, rnk = 1 \<rparr>, None)]
         else map (\<lambda>y. (\<lparr> t_cols = fst c, rnk = 1 \<rparr>, Some y)) (filter (x_y_on \<lparr> t_cols = fst c, rnk = 1 \<rparr>) (tracks d)))
        = map (\<lambda>y. (\<lparr> t_cols = fst c, rnk = 1 \<rparr>, Some y))
              (filter (\<lambda>y. candidate_group y = partition_by c) (tracks d))"
    if c: "c \<in> set (canonical_rows d)" for c
  proof -
    have f: "filter (x_y_on \<lparr> t_cols = fst c, rnk = 1 \<rparr>) (tracks d)
             = filter (\<lambda>y. candidate_group y = partition_by c) (tracks d)"
      by (rule filter_cong [OF refl]) (rule x_y_on_iff [OF assms c])
    have "t1_cols (fst c) \<in> set (filter (\<lambda>y. candidate_group y = partition_by c) (tracks d))"
      using canonical_rows_mem [OF c] by simp
    then have "filter (\<lambda>y. candidate_group y = partition_by c) (tracks d) \<noteq> []"
      by (auto simp: filter_empty_conv)
    then show ?thesis unfolding f by simp
  qed
  then show ?thesis
    unfolding left_outer_join_def map_map comp_def
    by (intro arg_cong [where f = concat] map_cong refl) simp
qed

lemma track_mapping_select_wf:
  assumes "wf_tracks (tracks d)"
  shows "track_mapping_select d =
         concat (map (\<lambda>c. map (\<lambda>y. \<lparr> old_track_uri = track_row.spotify_track_uri y,
                                       new_track_uri = track_row.spotify_track_uri (t1_cols (fst c)) \<rparr>)
                          (filter (\<lambda>y. candidate_group y = partition_by c) (tracks d)))
                     (canonical_rows d))"
proof -
  have 0: "(\<lambda>(x, y). rnk x = 1) = (\<lambda>xy :: x_row \<times> track_row option. rnk (fst xy) = 1)"
    by (simp add: fun_eq_iff)
  have 1: "filter (\<lambda>(x, y). rnk x = 1) (left_outer_join x_y_on (subquery_x d) (tracks d))
        = left_outer_join x_y_on (map (\<lambda>c. \<lparr> t_cols = fst c, rnk = 1 \<rparr>) (canonical_rows d)) (tracks d)"
  proof -
    have a: "filter (\<lambda>xy. rnk (fst xy) = 1) (left_outer_join x_y_on (subquery_x d) (tracks d))
             = left_outer_join x_y_on (filter (\<lambda>x. rnk x = 1) (subquery_x d)) (tracks d)"
      by (rule filter_left_outer_join [of "\<lambda>x. rnk x = 1"])
    show ?thesis unfolding 0 a filter_rnk_subquery_x ..
  qed
  have 2: "coalesce (track_row.spotify_track_uri y) u = track_row.spotify_track_uri y"
    if "y \<in> set (tracks d)" for y u
    using assms that by (auto simp: wf_tracks_def coalesce_def split: option.splits)
  show ?thesis
    unfolding track_mapping_select_def 1 left_outer_join_canonical [OF assms]
    apply (simp add: map_concat comp_def)
    apply (intro arg_cong [where f = concat] map_cong refl)
    apply (simp add: 2)
    done
qed

lemma track_mapping_select_iff:
  assumes "wf_tracks (tracks d)"
  shows "r \<in> set (track_mapping_select d) \<longleftrightarrow>
         (\<exists>c \<in> set (canonical_rows d). \<exists>y \<in> set (tracks d).
            candidate_group y = candidate_group (t1_cols (fst c))
            \<and> r = \<lparr> old_track_uri = track_row.spotify_track_uri y,
                    new_track_uri = track_row.spotify_track_uri (t1_cols (fst c)) \<rparr>)"
proof -
  have p: "partition_by c = candidate_group (t1_cols (fst c))" if "c \<in> set (canonical_rows d)" for c
    using canonical_rows_mem(4) [OF that] .
  show ?thesis
    unfolding track_mapping_select_wf [OF assms] by (auto simp: p)
qed

lemma track_mapping_select_keys:
  assumes "wf_tracks (tracks d)"
  shows "distinct (map old_track_uri (track_mapping_select d))"
    and "\<forall>r \<in> set (track_mapping_select d). old_track_uri r \<noteq> None"
proof -
  have e: "map old_track_uri (track_mapping_select d) =
        concat (map (\<lambda>p. map track_row.spotify_track_uri (filter (\<lambda>y. candidate_group y = p) (tracks d)))
                    (map partition_by (canonical_rows d)))"
    unfolding track_mapping_select_wf [OF assms] by (simp add: map_concat comp_def)
  have d1: "distinct (map partition_by (canonical_rows d))"
    unfolding canonical_rows_def by (rule first_rows_distinct_part)
  have d2: "distinct (map track_row.spotify_track_uri (tracks d))"
    using assms by (simp add: wf_tracks_def)
  show "distinct (map old_track_uri (track_mapping_select d))"
    unfolding e by (rule distinct_concat_map_groups [OF d1 d2])
  show "\<forall>r \<in> set (track_mapping_select d). old_track_uri r \<noteq> None"
    using assms by (auto simp: track_mapping_select_iff [OF assms] wf_tracks_def)
qed


lemma track_mapping_select_cong:
  "tracks d = tracks d' \<Longrightarrow> albums d = albums d' \<Longrightarrow> track_mapping_select d = track_mapping_select d'"
  by (simp add: track_mapping_select_def subquery_x_def t_join_albums_def)

lemma TRACK_MAPPING_QUERY_wf:
  assumes "wf_tracks (tracks d)"
  shows "TRACK_MAPPING_QUERY d = Inr (d\<lparr> track_mapping_test := track_mapping_select d \<rparr>)"
proof -
  let ?d = "truncate_track_mapping_test d"
  have s: "track_mapping_select ?d = track_mapping_select d"
    by (rule track_mapping_select_cong) (simp_all add: truncate_track_mapping_test_def)
  have "\<not> (\<exists>r \<in> set (track_mapping_select d). old_track_uri r = None)"
    using track_mapping_select_keys(2) [OF assms] by blast
  moreover have "distinct (map old_track_uri (track_mapping_test ?d @ track_mapping_select d))"
    using track_mapping_select_keys(1) [OF assms] by (simp add: truncate_track_mapping_test_def)
  moreover have "TRACK_MAPPING_QUERY d = insert_into_track_mapping_test (track_mapping_select d) ?d"
    by (simp only: TRACK_MAPPING_QUERY_def Let_def s)
  ultimately show ?thesis
    by (simp add: insert_into_track_mapping_test_def truncate_track_mapping_test_def)
qed

lemma TRACK_MAPPING_QUERY_Inr:
  "TRACK_MAPPING_QUERY d = Inr d1 \<longleftrightarrow>
     (\<forall>r \<in> set (track_mapping_select d). old_track_uri r \<noteq> None)
     \<and> distinct (map old_track_uri (track_mapping_select d))
     \<and> d1 = d\<lparr> track_mapping_test := track_mapping_select d \<rparr>"
proof -
  let ?d = "truncate_track_mapping_test d"
  have s: "track_mapping_select ?d = track_mapping_select d"
    by (rule track_mapping_select_cong) (simp_all add: truncate_track_mapping_test_def)
  have "TRACK_MAPPING_QUERY d = insert_into_track_mapping_test (track_mapping_select d) ?d"
    by (simp only: TRACK_MAPPING_QUERY_def Let_def s)
  then show ?thesis
    by (auto simp: insert_into_track_mapping_test_def truncate_track_mapping_test_def)
qed



lemma scenario_album_beats_single:
  assumes wf: "wf_tracks (tracks d)"
    and pk: "distinct (map album_row.spotify_album_id (albums d))"
    and tA: "tA \<in> set (tracks d)" and tB: "tB \<in> set (tracks d)"
    and grp: "candidate_group tB = candidate_group tA"
    and aA: "aA \<in> set (albums d)" "track_row.spotify_album_id tA = Some (album_row.spotify_album_id aA)"
      "album_type aA = Some ''album''"
    and aB: "aB \<in> set (albums d)" "track_row.spotify_album_id tB = Some (album_row.spotify_album_id aB)"
      "album_type aB = Some ''single''"
    and two: "\<forall>t \<in> set (tracks d). candidate_group t = candidate_group tA \<longrightarrow> t = tA \<or> t = tB"
  shows "\<lparr> old_track_uri = track_row.spotify_track_uri tB,
           new_track_uri = track_row.spotify_track_uri tA \<rparr> \<in> set (track_mapping_select d)"
proof -
  have res: "resolvable_album d tA"
    using aA by (auto simp: resolvable_album_def sql_eq_def)
  from t_join_albums_intro [OF wf tA res]
  obtain j where j: "j \<in> set (t_join_albums d)" "t1_cols (fst j) = tA" by blast
  have "snd j = aA"
    using albums_pk [OF pk t_join_albums_mem(4) [OF j(1)] aA(1) t_join_albums_mem(5) [OF j(1)]]
      j(2) aA(2) by simp
  then have rj: "fst (order_by j) = 1"
    using aA(3) by (simp add: order_by_def album_type_rank_values)
  from canonical_rows_cover [OF j(1)]
  obtain c where c: "c \<in> set (canonical_rows d)" "partition_by c = partition_by j" by blast
  have cj: "c \<in> set (t_join_albums d)" using canonical_rows_mem(1) [OF c(1)] .
  have "order_by c \<le> order_by j"
    using canonical_rows_least [OF c(1) j(1)] c(2) by simp
  then have "fst (order_by c) \<le> fst (order_by j)"
    by (cases "order_by c"; cases "order_by j") (auto simp: lex_le)
  with rj have "album_type_rank (album_type (snd c)) \<le> 1" by (simp add: order_by_def)
  with album_type_rank_ge_1 [of "album_type (snd c)"]
  have "album_type_rank (album_type (snd c)) = 1" by simp
  then have ty: "album_type (snd c) = Some ''album''" by (rule album_type_rank_1)
  have gc: "candidate_group (t1_cols (fst c)) = candidate_group tA"
    using canonical_rows_mem(4) [OF c(1)] c(2) t_join_albums_mem(3) [OF j(1)] j(2) by simp
  have "t1_cols (fst c) \<noteq> tB"
  proof
    assume e: "t1_cols (fst c) = tB"
    have "snd c = aB"
      using albums_pk [OF pk t_join_albums_mem(4) [OF cj] aB(1) t_join_albums_mem(5) [OF cj]]
        e aB(2) by simp
    with ty aB(3) show False by simp
  qed
  with two canonical_rows_mem(2) [OF c(1)] gc have "t1_cols (fst c) = tA" by blast
  with c(1) tB grp show ?thesis
    unfolding track_mapping_select_iff [OF wf] by force
qed

lemma scenario_same_bucket:
  "duration_bucket (Some 181500) = duration_bucket (Some 180000)"
  by (simp add: duration_bucket_def pg_mod_def)

section \<open>The consolidated tracks\<close>

lemma subquery_an_rows:
  "filter (\<lambda>an. i = fst an) (subquery_an d) =
     (if i \<in> (\<lambda>j. track_artist_row.spotify_track_id (fst j)) ` set (an_join d)
      then [(i, an_names d i)] else [])"
proof -
  let ?ks = "remdups (map (\<lambda>j. track_artist_row.spotify_track_id (fst j)) (an_join d))"
  have "filter (\<lambda>an. i = fst an) (subquery_an d)
        = map (\<lambda>i. (i, an_names d i)) (filter (\<lambda>k. i = k) ?ks)"
    by (simp add: subquery_an_def an_names_def filter_map comp_def)
  also have "\<dots> = (if i \<in> set ?ks then [(i, an_names d i)] else [])"
    by (simp add: filter_eq_distinct)
  finally show ?thesis by simp
qed



lemma tracks_consolidated_select_joined:
  "tracks_consolidated_select d = remdups (consolidated_joined d)"
  by (simp add: tracks_consolidated_select_def consolidated_joined_def)

lemma consolidated_joined_iff:
  "r \<in> set (consolidated_joined d) \<longleftrightarrow>
     (\<exists>t \<in> set (tracks d). has_consolidated_row d t
        \<and> r = t\<lparr> track_row.all_artist_names := an_names d (track_row.spotify_track_id t) \<rparr>)"
  unfolding consolidated_joined_def subquery_an_rows
  by (auto simp: has_consolidated_row_def split: if_splits)

lemma tracks_pk:
  assumes "distinct (map track_row.spotify_track_id (tracks d))"
    and "t \<in> set (tracks d)" and "t' \<in> set (tracks d)"
    and "track_row.spotify_track_id t = track_row.spotify_track_id t'"
  shows "t = t'"
  using assms by (auto simp: distinct_map dest: inj_onD)


lemma consolidated_select_distinct_ids:
  assumes pk: "distinct (map track_row.spotify_track_id (tracks d))"
  shows "distinct (map track_row.spotify_track_id (tracks_consolidated_select d))"
proof -
  have "inj_on track_row.spotify_track_id (set (consolidated_joined d))"
  proof (rule inj_onI)
    fix y y' assume y: "y \<in> set (consolidated_joined d)" and y': "y' \<in> set (consolidated_joined d)"
      and e: "track_row.spotify_track_id y = track_row.spotify_track_id y'"
    from y obtain t where t: "t \<in> set (tracks d)"
      "y = t\<lparr> track_row.all_artist_names := an_names d (track_row.spotify_track_id t) \<rparr>"
      unfolding consolidated_joined_iff by auto
    from y' obtain t' where t': "t' \<in> set (tracks d)"
      "y' = t'\<lparr> track_row.all_artist_names := an_names d (track_row.spotify_track_id t') \<rparr>"
      unfolding consolidated_joined_iff by auto
    have "t = t'" using tracks_pk [OF pk t(1) t'(1)] t(2) t'(2) e by simp
    with t t' show "y = y'" by simp
  qed
  then show ?thesis
    unfolding tracks_consolidated_select_joined by (simp add: distinct_map)
qed

lemma tracks_consolidated_select_cong:
  "tracks d = tracks d' \<Longrightarrow> track_mapping d = track_mapping d' \<Longrightarrow> artists d = artists d'
   \<Longrightarrow> track_artists d = track_artists d'
   \<Longrightarrow> tracks_consolidated_select d = tracks_consolidated_select d'"
  by (simp add: tracks_consolidated_select_def subquery_an_def an_join_def)


lemma TRACKS_CONSOLIDATED_QUERY_Inr:
  "TRACKS_CONSOLIDATED_QUERY d = Inr d2 \<longleftrightarrow>
     distinct (map track_row.spotify_track_id (tracks_consolidated_select d))
     \<and> d2 = d\<lparr> tracks_consolidated_test := tracks_consolidated_select d \<rparr>"
proof -
  let ?d = "truncate_tracks_consolidated_test d"
  have s: "tracks_consolidated_select ?d = tracks_consolidated_select d"
    by (rule tracks_consolidated_select_cong) (simp_all add: truncate_tracks_consolidated_test_def)
  have "TRACKS_CONSOLIDATED_QUERY d =
          insert_into_tracks_consolidated_test (tracks_consolidated_select d) ?d"
    by (simp only: TRACKS_CONSOLIDATED_QUERY_def Let_def s)
  then show ?thesis
    by (auto simp: insert_into_tracks_consolidated_test_def truncate_tracks_consolidated_test_def)
qed



section \<open>Running the rebuild twice\<close>

lemma rebuild_Inr:
  "rebuild d = Inr d' \<longleftrightarrow>
     (\<forall>r \<in> set (track_mapping_select d). old_track_uri r \<noteq> None)
     \<and> distinct (map old_track_uri (track_mapping_select d))
     \<and> distinct (map track_row.spotify_track_id (tracks_consolidated_select d))
     \<and> d' = d\<lparr> track_mapping_test := track_mapping_select d,
                tracks_consolidated_test := tracks_consolidated_select d \<rparr>"
proof -
  have c: "tracks_consolidated_select (d\<lparr> track_mapping_test := m \<rparr>) = tracks_consolidated_select d"
    for m by (rule tracks_consolidated_select_cong) simp_all
  let ?M = "track_mapping_select d" and ?S = "tracks_consolidated_select d"
  show ?thesis
  proof
    assume "rebuild d = Inr d'"
    then obtain d1 where 1: "TRACK_MAPPING_QUERY d = Inr d1"
      and 2: "TRACKS_CONSOLIDATED_QUERY d1 = Inr d'"
      by (auto simp: rebuild_def split: sum.splits)
    from 1 have m: "\<forall>r \<in> set ?M. old_track_uri r \<noteq> None" "distinct (map old_track_uri ?M)"
      and d1: "d1 = d\<lparr> track_mapping_test := ?M \<rparr>"
      unfolding TRACK_MAPPING_QUERY_Inr by simp_all
    from 2 have "distinct (map track_row.spotify_track_id ?S)"
      and "d' = d\<lparr> track_mapping_test := ?M, tracks_consolidated_test := ?S \<rparr>"
      unfolding TRACKS_CONSOLIDATED_QUERY_Inr d1 c by simp_all
    with m show "(\<forall>r \<in> set ?M. old_track_uri r \<noteq> None)
     \<and> distinct (map old_track_uri ?M)
     \<and> distinct (map track_row.spotify_track_id ?S)
     \<and> d' = d\<lparr> track_mapping_test := ?M, tracks_consolidated_test := ?S \<rparr>" by blast
  next
    assume r: "(\<forall>r \<in> set ?M. old_track_uri r \<noteq> None)
     \<and> distinct (map old_track_uri ?M)
     \<and> distinct (map track_row.spotify_track_id ?S)
     \<and> d' = d\<lparr> track_mapping_test := ?M, tracks_consolidated_test := ?S \<rparr>"
    then have 1: "TRACK_MAPPING_QUERY d = Inr (d\<lparr> track_mapping_test := ?M \<rparr>)"
      unfolding TRACK_MAPPING_QUERY_Inr by blast
    have 2: "TRACKS_CONSOLIDATED_QUERY (d\<lparr> track_mapping_test := ?M \<rparr>) = Inr d'"
      unfolding TRACKS_CONSOLIDATED_QUERY_Inr c using r by simp
    show "rebuild d = Inr d'" by (simp add: rebuild_def 1 2)
  qed
qed

lemma rebuild_twice:
  assumes "rebuild d = Inr d'"
  shows "rebuild d' = Inr d'"
proof -
  let ?M = "track_mapping_select d" and ?S = "tracks_consolidated_select d"
  from assms have a: "\<forall>r \<in> set ?M. old_track_uri r \<noteq> None" "distinct (map old_track_uri ?M)"
    "distinct (map track_row.spotify_track_id ?S)"
    and d': "d' = d\<lparr> track_mapping_test := ?M, tracks_consolidated_test := ?S \<rparr>"
    unfolding rebuild_Inr by simp_all
  have m: "track_mapping_select d' = ?M"
    unfolding d' by (rule track_mapping_select_cong) simp_all
  have s: "tracks_consolidated_select d' = ?S"
    unfolding d' by (rule tracks_consolidated_select_cong) simp_all
  show ?thesis
    unfolding rebuild_Inr m s using a by (simp add: d')
qed

lemma rebuild_wf:
  assumes "wf_tracks (tracks d)"
  shows "\<exists>d'. rebuild d = Inr d'"
proof -
  have pk: "distinct (map track_row.spotify_track_id (tracks d))"
    using assms by (simp add: wf_tracks_def)
  show ?thesis
    unfolding rebuild_Inr
    using track_mapping_select_keys [OF assms] consolidated_select_distinct_ids [OF pk]
    by simp
qed

section \<open>Statements and commits\<close>






section \<open>The example data, evaluated\<close>

lemma catalog_wf: "wf_tracks (tracks catalog_db)"
  by code_simp



lemma stale_rebuild_eval: "rebuild stale_db = Inr rebuilt_db"
  by code_simp

lemma scenario_mapping_eval:
  "TRACK_MAPPING_QUERY scenario_db =
     Inr (scenario_db\<lparr> track_mapping_test :=
            [\<lparr> old_track_uri = Some ''uB'', new_track_uri = Some ''uA'' \<rparr>,
             \<lparr> old_track_uri = Some ''uA'', new_track_uri = Some ''uA'' \<rparr>] \<rparr>)"
  by code_simp


lemma catalog_uris:
  "track_row.spotify_track_uri track_A = Some ''uA''"
  "track_row.spotify_track_uri track_B = Some ''uB''"
  "track_row.spotify_track_uri track_C = Some ''uC''"
  "track_row.spotify_track_uri track_D = Some ''uD''"
  "track_row.spotify_track_uri track_F = Some ''uF''"
  by (simp_all add: track_A_def track_B_def track_C_def track_D_def track_F_def example_track_def)


lemma scenario_wf: "wf_tracks (tracks scenario_db)"
  by code_simp

lemma scenario_join:
  "(\<lparr> t1_cols = track_A, min_duration_ms = Some 180000, duration_ms_group = Some 180000 \<rparr>, album_A)
     \<in> set (t_join_albums scenario_db)"
  by code_simp





section \<open>C1: the canonical track of a group\<close>

text \<open>
  Claim C1. Every candidate group of joined rows (tracks with a row of \<open>albums\<close>, sharing
  primary artist, name and duration bucket) has exactly one row of \<open>x\<close> with \<open>rnk = 1\<close>,
  and it is a row of the group that is least under the \<open>ORDER BY\<close> key; when the tracks
  are well formed, the mapping maps the URI of every track with the group's key to the URI
  of that row's track. The key compares
  the album type rank first (album 1, single 2, compilation 3, anything else 4), then the
  popularity, larger first, then the release date, earlier first, then the track id,
  smaller first (spelled out for rows whose popularity and date are not NULL). In the
  scenario of the specification (A of 180000 ms on an album, B of 181500 ms on a single,
  same name and artist, no third track in their group) the rebuilt mapping maps the URI
  of B to the URI of A.
\<close>

theorem C1_canonical_first_under_ordering:
  "(\<forall>j \<in> set (t_join_albums d).
      \<exists>c \<in> set (t_join_albums d).
        filter (\<lambda>x. rnk x = 1 \<and> x_group x = partition_by j) (subquery_x d)
          = [\<lparr> t_cols = fst c, rnk = 1 \<rparr>]
        \<and> partition_by c = partition_by j
        \<and> (\<forall>j' \<in> set (t_join_albums d).
              partition_by j' = partition_by j \<longrightarrow> order_by c \<le> order_by j')
        \<and> (wf_tracks (tracks d) \<longrightarrow>
             (\<forall>y \<in> set (tracks d).
                candidate_group y = partition_by j \<longrightarrow>
                \<lparr> old_track_uri = track_row.spotify_track_uri y,
                  new_track_uri = track_row.spotify_track_uri (t1_cols (fst c)) \<rparr>
                  \<in> set (track_mapping_select d))))
   \<and> (track_popularity (t1_cols (fst k)) = Some p \<and> track_popularity (t1_cols (fst k')) = Some p'
       \<and> release_date (snd k) = Some day \<and> release_date (snd k') = Some day'
       \<longrightarrow> (order_by k \<le> order_by k' \<longleftrightarrow>
              album_type_rank (album_type (snd k)) < album_type_rank (album_type (snd k'))
              \<or> (album_type_rank (album_type (snd k)) = album_type_rank (album_type (snd k'))
                  \<and> (p > p'
                      \<or> (p = p'
                          \<and> (day < day'
                              \<or> (day = day'
                                  \<and> track_row.spotify_track_id (t1_cols (fst k))
                                      \<le> track_row.spotify_track_id (t1_cols (fst k')))))))))
   \<and> album_type_rank (Some ''album'') = 1
   \<and> album_type_rank (Some ''single'') = 2
   \<and> album_type_rank (Some ''compilation'') = 3
   \<and> (ty \<notin> {Some ''album'', Some ''single'', Some ''compilation''} \<longrightarrow> album_type_rank ty = 4)
   \<and> (wf_tracks (tracks d) \<and> distinct (map album_row.spotify_album_id (albums d))
       \<and> tA \<in> set (tracks d) \<and> tB \<in> set (tracks d)
       \<and> track_row.spotify_track_id tA = ''A'' \<and> track_row.spotify_track_id tB = ''B''
       \<and> track_row.track_name tA = Some ''X'' \<and> track_row.track_name tB = Some ''X''
       \<and> track_row.spotify_artist_id tA = Some ''1'' \<and> track_row.spotify_artist_id tB = Some ''1''
       \<and> duration_ms tA = Some 180000 \<and> duration_ms tB = Some 181500
       \<and> aA \<in> set (albums d) \<and> track_row.spotify_album_id tA = Some (album_row.spotify_album_id aA)
       \<and> album_type aA = Some ''album''
       \<and> aB \<in> set (albums d) \<and> track_row.spotify_album_id tB = Some (album_row.spotify_album_id aB)
       \<and> album_type aB = Some ''single''
       \<and> (\<forall>t \<in> set (tracks d). candidate_group t = candidate_group tA \<longrightarrow> t = tA \<or> t = tB)
       \<longrightarrow> (\<exists>d'. TRACK_MAPPING_QUERY d = Inr d'
                \<and> \<lparr> old_track_uri = track_row.spotify_track_uri tB,
                      new_track_uri = track_row.spotify_track_uri tA \<rparr>
                    \<in> set (track_mapping_test d')))"
proof -
  have 1: "\<forall>j \<in> set (t_join_albums d).
      \<exists>c \<in> set (t_join_albums d).
        filter (\<lambda>x. rnk x = 1 \<and> x_group x = partition_by j) (subquery_x d)
          = [\<lparr> t_cols = fst c, rnk = 1 \<rparr>]
        \<and> partition_by c = partition_by j
        \<and> (\<forall>j' \<in> set (t_join_albums d).
              partition_by j' = partition_by j \<longrightarrow> order_by c \<le> order_by j')
        \<and> (wf_tracks (tracks d) \<longrightarrow>
             (\<forall>y \<in> set (tracks d).
                candidate_group y = partition_by j \<longrightarrow>
                \<lparr> old_track_uri = track_row.spotify_track_uri y,
                  new_track_uri = track_row.spotify_track_uri (t1_cols (fst c)) \<rparr>
                  \<in> set (track_mapping_select d)))"
  proof
    fix j assume j: "j \<in> set (t_join_albums d)"
    from canonical_row_of_group [OF j] obtain c where
      c: "c \<in> set (canonical_rows d)" "partition_by c = partition_by j"
         "filter (\<lambda>x. rnk x = 1 \<and> x_group x = partition_by j) (subquery_x d)
           = [\<lparr> t_cols = fst c, rnk = 1 \<rparr>]" by blast
    have le: "\<forall>j' \<in> set (t_join_albums d).
              partition_by j' = partition_by j \<longrightarrow> order_by c \<le> order_by j'"
      using canonical_rows_least [OF c(1)] c(2) by simp
    have mp: "wf_tracks (tracks d) \<longrightarrow>
             (\<forall>y \<in> set (tracks d).
                candidate_group y = partition_by j \<longrightarrow>
                \<lparr> old_track_uri = track_row.spotify_track_uri y,
                  new_track_uri = track_row.spotify_track_uri (t1_cols (fst c)) \<rparr>
                  \<in> set (track_mapping_select d))"
    proof (intro impI ballI)
      fix y assume wf: "wf_tracks (tracks d)" and y: "y \<in> set (tracks d)"
        and g: "candidate_group y = partition_by j"
      have "candidate_group y = candidate_group (t1_cols (fst c))"
        using g c(2) canonical_rows_mem(4) [OF c(1)] by simp
      then show "\<lparr> old_track_uri = track_row.spotify_track_uri y,
                  new_track_uri = track_row.spotify_track_uri (t1_cols (fst c)) \<rparr>
                  \<in> set (track_mapping_select d)"
        unfolding track_mapping_select_iff [OF wf] using c(1) y by blast
    qed
    show "\<exists>c \<in> set (t_join_albums d).
        filter (\<lambda>x. rnk x = 1 \<and> x_group x = partition_by j) (subquery_x d)
          = [\<lparr> t_cols = fst c, rnk = 1 \<rparr>]
        \<and> partition_by c = partition_by j
        \<and> (\<forall>j' \<in> set (t_join_albums d).
              partition_by j' = partition_by j \<longrightarrow> order_by c \<le> order_by j')
        \<and> (wf_tracks (tracks d) \<longrightarrow>
             (\<forall>y \<in> set (tracks d).
                candidate_group y = partition_by j \<longrightarrow>
                \<lparr> old_track_uri = track_row.spotify_track_uri y,
                  new_track_uri = track_row.spotify_track_uri (t1_cols (fst c)) \<rparr>
                  \<in> set (track_mapping_select d)))"
      by (rule bexI [OF _ canonical_rows_mem(1) [OF c(1)]]) (intro conjI c(3) c(2) le mp)
  qed
  have 2: "track_popularity (t1_cols (fst k)) = Some p \<and> track_popularity (t1_cols (fst k')) = Some p'
       \<and> release_date (snd k) = Some day \<and> release_date (snd k') = Some day'
       \<longrightarrow> (order_by k \<le> order_by k' \<longleftrightarrow>
              album_type_rank (album_type (snd k)) < album_type_rank (album_type (snd k'))
              \<or> (album_type_rank (album_type (snd k)) = album_type_rank (album_type (snd k'))
                  \<and> (p > p'
                      \<or> (p = p'
                          \<and> (day < day'
                              \<or> (day = day'
                                  \<and> track_row.spotify_track_id (t1_cols (fst k))
                                      \<le> track_row.spotify_track_id (t1_cols (fst k'))))))))"
    using order_by_explicit [of k p k' p' day day'] by blast
  have 3: "ty \<notin> {Some ''album'', Some ''single'', Some ''compilation''} \<longrightarrow> album_type_rank ty = 4"
    using album_type_rank_values(4) by blast
  have 4: "wf_tracks (tracks d) \<and> distinct (map album_row.spotify_album_id (albums d))
       \<and> tA \<in> set (tracks d) \<and> tB \<in> set (tracks d)
       \<and> track_row.spotify_track_id tA = ''A'' \<and> track_row.spotify_track_id tB = ''B''
       \<and> track_row.track_name tA = Some ''X'' \<and> track_row.track_name tB = Some ''X''
       \<and> track_row.spotify_artist_id tA = Some ''1'' \<and> track_row.spotify_artist_id tB = Some ''1''
       \<and> duration_ms tA = Some 180000 \<and> duration_ms tB = Some 181500
       \<and> aA \<in> set (albums d) \<and> track_row.spotify_album_id tA = Some (album_row.spotify_album_id aA)
       \<and> album_type aA = Some ''album''
       \<and> aB \<in> set (albums d) \<and> track_row.spotify_album_id tB = Some (album_row.spotify_album_id aB)
       \<and> album_type aB = Some ''single''
       \<and> (\<forall>t \<in> set (tracks d). candidate_group t = candidate_group tA \<longrightarrow> t = tA \<or> t = tB)
       \<longrightarrow> (\<exists>d'. TRACK_MAPPING_QUERY d = Inr d'
                \<and> \<lparr> old_track_uri = track_row.spotify_track_uri tB,
                      new_track_uri = track_row.spotify_track_uri tA \<rparr>
                    \<in> set (track_mapping_test d'))"
  proof (intro impI, elim conjE)
    assume wf: "wf_tracks (tracks d)"
      and pk: "distinct (map album_row.spotify_album_id (albums d))"
      and t: "tA \<in> set (tracks d)" "tB \<in> set (tracks d)"
      and n: "track_row.track_name tA = Some ''X''" "track_row.track_name tB = Some ''X''"
      and ar: "track_row.spotify_artist_id tA = Some ''1''" "track_row.spotify_artist_id tB = Some ''1''"
      and du: "duration_ms tA = Some 180000" "duration_ms tB = Some 181500"
      and aA: "aA \<in> set (albums d)" "track_row.spotify_album_id tA = Some (album_row.spotify_album_id aA)"
        "album_type aA = Some ''album''"
      and aB: "aB \<in> set (albums d)" "track_row.spotify_album_id tB = Some (album_row.spotify_album_id aB)"
        "album_type aB = Some ''single''"
      and two: "\<forall>t \<in> set (tracks d). candidate_group t = candidate_group tA \<longrightarrow> t = tA \<or> t = tB"
    have grp: "candidate_group tB = candidate_group tA"
      using n ar du scenario_same_bucket by (simp add: candidate_group_def)
    have m: "\<lparr> old_track_uri = track_row.spotify_track_uri tB,
           new_track_uri = track_row.spotify_track_uri tA \<rparr> \<in> set (track_mapping_select d)"
      by (rule scenario_album_beats_single [OF wf pk t grp aA aB two])
    have tm: "track_mapping_test (d\<lparr> track_mapping_test := track_mapping_select d \<rparr>)
              = track_mapping_select d" by simp
    show "\<exists>d'. TRACK_MAPPING_QUERY d = Inr d'
                \<and> \<lparr> old_track_uri = track_row.spotify_track_uri tB,
                      new_track_uri = track_row.spotify_track_uri tA \<rparr>
                    \<in> set (track_mapping_test d')"
      by (rule exI [of _ "d\<lparr> track_mapping_test := track_mapping_select d \<rparr>"], unfold tm, intro conjI)
         (rule TRACK_MAPPING_QUERY_wf [OF wf] m)+
  qed
  show ?thesis
    by (intro conjI) (rule 1 2 3 4 album_type_rank_values(1-3))+
qed

text \<open>An instance.\<close>

theorem C1_canonical_first_under_ordering_witness:
  "(\<lparr> t1_cols = track_A, min_duration_ms = Some 180000, duration_ms_group = Some 180000 \<rparr>, album_A)
     \<in> set (t_join_albums scenario_db)
   \<and> (\<exists>c \<in> set (t_join_albums scenario_db).
        filter (\<lambda>x. rnk x = 1 \<and> x_group x = (Some ''1'', Some ''X'', Some 180000)) (subquery_x scenario_db)
          = [\<lparr> t_cols = fst c, rnk = 1 \<rparr>]
        \<and> t1_cols (fst c) = track_A)
   \<and> wf_tracks (tracks scenario_db)
   \<and> track_A \<in> set (tracks scenario_db) \<and> track_B \<in> set (tracks scenario_db)
   \<and> duration_ms track_A = Some 180000 \<and> duration_ms track_B = Some 181500
   \<and> album_type album_A = Some ''album'' \<and> album_type album_B = Some ''single''
   \<and> (\<exists>d'. TRACK_MAPPING_QUERY scenario_db = Inr d'
          \<and> \<lparr> old_track_uri = Some ''uB'', new_track_uri = Some ''uA'' \<rparr>
              \<in> set (track_mapping_test d'))
   \<and> TRACK_MAPPING_QUERY scenario_db =
       Inr (scenario_db\<lparr> track_mapping_test :=
              [\<lparr> old_track_uri = Some ''uB'', new_track_uri = Some ''uA'' \<rparr>,
               \<lparr> old_track_uri = Some ''uA'', new_track_uri = Some ''uA'' \<rparr>] \<rparr>)"
proof -
  let ?j = "(\<lparr> t1_cols = track_A, min_duration_ms = Some 180000, duration_ms_group = Some 180000 \<rparr>,
             album_A)"
  note T = C1_canonical_first_under_ordering
    [where d = scenario_db and tA = track_A and tB = track_B and aA = album_A and aB = album_B]
  have pj: "partition_by ?j = (Some ''1'', Some ''X'', Some 180000)"
    by (simp add: partition_by_def track_A_def example_track_def)
  from T [THEN conjunct1, rule_format, OF scenario_join]
  obtain c where c: "c \<in> set (t_join_albums scenario_db)"
    "filter (\<lambda>x. rnk x = 1 \<and> x_group x = partition_by ?j) (subquery_x scenario_db)
       = [\<lparr> t_cols = fst c, rnk = 1 \<rparr>]"
    by blast
  have "filter (\<lambda>x. rnk x = 1 \<and> x_group x = (Some ''1'', Some ''X'', Some 180000)) (subquery_x scenario_db)
          = [\<lparr> t_cols = fst ?j, rnk = 1 \<rparr>]"
    by code_simp
  with c(2) have "t1_cols (fst c) = track_A" unfolding pj by simp
  with c have 1: "\<exists>c \<in> set (t_join_albums scenario_db).
        filter (\<lambda>x. rnk x = 1 \<and> x_group x = (Some ''1'', Some ''X'', Some 180000)) (subquery_x scenario_db)
          = [\<lparr> t_cols = fst c, rnk = 1 \<rparr>]
        \<and> t1_cols (fst c) = track_A"
    unfolding pj by blast
  have m: "track_A \<in> set (tracks scenario_db)" "track_B \<in> set (tracks scenario_db)"
    "album_A \<in> set (albums scenario_db)" "album_B \<in> set (albums scenario_db)"
    by (simp_all add: scenario_db_def empty_db_def)
  have f: "track_row.spotify_track_id track_A = ''A''" "track_row.spotify_track_id track_B = ''B''"
    "track_row.track_name track_A = Some ''X''" "track_row.track_name track_B = Some ''X''"
    "track_row.spotify_artist_id track_A = Some ''1''" "track_row.spotify_artist_id track_B = Some ''1''"
    "duration_ms track_A = Some 180000" "duration_ms track_B = Some 181500"
    "track_row.spotify_album_id track_A = Some (album_row.spotify_album_id album_A)"
    "track_row.spotify_album_id track_B = Some (album_row.spotify_album_id album_B)"
    "album_type album_A = Some ''album''" "album_type album_B = Some ''single''"
    by (simp_all add: track_A_def track_B_def album_A_def album_B_def example_track_def
        example_album_def)
  have pk: "distinct (map album_row.spotify_album_id (albums scenario_db))"
    by (simp add: scenario_db_def empty_db_def album_A_def album_B_def example_album_def)
  have two: "\<forall>t \<in> set (tracks scenario_db).
               candidate_group t = candidate_group track_A \<longrightarrow> t = track_A \<or> t = track_B"
    by (simp add: scenario_db_def empty_db_def)
  have "\<exists>d'. TRACK_MAPPING_QUERY scenario_db = Inr d'
          \<and> \<lparr> old_track_uri = track_row.spotify_track_uri track_B,
                new_track_uri = track_row.spotify_track_uri track_A \<rparr>
              \<in> set (track_mapping_test d')"
    by (rule T [THEN conjunct2, THEN conjunct2, THEN conjunct2, THEN conjunct2, THEN conjunct2,
          THEN conjunct2, rule_format])
       (intro conjI scenario_wf pk m f two)
  then have 2: "\<exists>d'. TRACK_MAPPING_QUERY scenario_db = Inr d'
          \<and> \<lparr> old_track_uri = Some ''uB'', new_track_uri = Some ''uA'' \<rparr>
              \<in> set (track_mapping_test d')"
    unfolding catalog_uris .
  show ?thesis
    by (intro conjI) (rule scenario_join 1 scenario_wf m f 2 scenario_mapping_eval)+
qed

section \<open>C2: the mapping is total, consistent and idempotent\<close>



section \<open>C3: tracks without an album\<close>




section \<open>C4: the bucket boundary\<close>



section \<open>C5: the rename of duplicate artists\<close>

text \<open>
  Claim C5 on the two artists called Bob (1000 and 50 followers): \<open>process_duplicate_artists\<close>
  raises \<open>NameError\<close> and both artists keep the name Bob. The statements after the logging
  call, had they been reached, would have kept Bob for the first and renamed the second
  Bob (2).
\<close>

theorem C5_rename_not_reached:
  "fst (process_duplicate_artists bob_conn) = Inl (NameError ''album_name'')
   \<and> map artist_row.artist_name (artists_test (working (snd (process_duplicate_artists bob_conn))))
       = [Some ''Bob'', Some ''Bob'']
   \<and> map artist_row.artist_name
       (artists_test (working (rename_duplicates (dupe_query (artists_test (working bob_conn))) bob_conn)))
       = [Some ''Bob'', Some ''Bob (2)'']"
  by (simp add: process_duplicate_artists_NameError bob_dupe_query bob_rename_duplicates)
     (simp add: bob_conn_def bob_db_def empty_db_def example_artist_def)

section \<open>C6: the consolidated row of a canonical track\<close>




section \<open>C7: bounded retries\<close>



section \<open>C8: transactions\<close>




section \<open>C9: the rebuild is idempotent\<close>

text \<open>
  Claim C9. When the tracks are well formed the rebuild (mapping, then consolidation)
  succeeds; and whenever it succeeds, it leaves the tables it reads unchanged, and running
  it again on the resulting database succeeds and gives that same database.
\<close>

theorem C9_rebuild_idempotent:
  "(wf_tracks (tracks d) \<longrightarrow> (\<exists>d'. rebuild d = Inr d'))
   \<and> (rebuild d = Inr d' \<longrightarrow>
        rebuild d' = Inr d'
        \<and> tracks d' = tracks d \<and> albums d' = albums d \<and> artists d' = artists d
        \<and> track_artists d' = track_artists d \<and> track_mapping d' = track_mapping d)"
proof -
  have "tracks d' = tracks d \<and> albums d' = albums d \<and> artists d' = artists d
        \<and> track_artists d' = track_artists d \<and> track_mapping d' = track_mapping d"
    if "rebuild d = Inr d'"
    using that unfolding rebuild_Inr by simp
  then show ?thesis using rebuild_wf rebuild_twice by blast
qed

text \<open>An instance.\<close>

theorem C9_rebuild_idempotent_witness:
  "wf_tracks (tracks stale_db)
   \<and> rebuild stale_db = Inr rebuilt_db
   \<and> rebuild rebuilt_db = Inr rebuilt_db
   \<and> track_mapping_test rebuilt_db = catalog_mapping
   \<and> tracks_consolidated_test rebuilt_db = catalog_consolidated"
proof -
  have w: "wf_tracks (tracks stale_db)"
    using catalog_wf by (simp add: stale_db_def)
  from C9_rebuild_idempotent [of stale_db rebuilt_db, THEN conjunct2, rule_format, OF stale_rebuild_eval]
  have "rebuild rebuilt_db = Inr rebuilt_db" by blast
  then show ?thesis
    using w stale_rebuild_eval by (simp add: rebuilt_db_def)
qed

section \<open>C10: \<open>process_duplicate_artists\<close> always raises\<close>

text \<open>
  Claim C10. On every connection \<open>process_duplicate_artists\<close> raises
  \<open>NameError\<close> for \<open>album_name\<close>, and the connection is as it was: no table has been
  changed and nothing has been committed.
\<close>

theorem C10_process_duplicate_artists_always_raises:
  "process_duplicate_artists c = (Inl (NameError ''album_name''), c)"
  by (rule process_duplicate_artists_NameError)

theorem C10_process_duplicate_artists_always_raises_witness:
  "process_duplicate_artists bob_conn = (Inl (NameError ''album_name''), bob_conn)"
  by (rule C10_process_duplicate_artists_always_raises)

end
